theory Spec2Isabelle
  imports Complex_Main "HOL-Library.Sublist" "HOL-Library.AList"
begin

section \<open>Python values and string primitives\<close>

text \<open>
  The providers are Python. A \<open>str\<close> and a \<open>bytes\<close> object are both modelled as
  \<open>char list\<close> (a HOL \<open>char\<close> is one byte, so only ASCII text is covered for
  \<open>str\<close>). Python exceptions are values: a function that may raise returns a sum
  whose left injection is the exception, or an option where the source catches every
  exception at once.
\<close>

type_synonym bytes = "char list"

text \<open>\<open>s[a:b]\<close> for non-negative \<open>a \<le> b\<close>: slicing never raises.\<close>

definition slice :: "string \<Rightarrow> nat \<Rightarrow> nat \<Rightarrow> string" where
  "slice s a b = take (b - a) (drop a s)"

definition is_space :: "char \<Rightarrow> bool" where
  "is_space c = (let n = (of_char c :: nat) in (9 \<le> n \<and> n \<le> 13) \<or> (28 \<le> n \<and> n \<le> 32))"

definition strip_space :: "string \<Rightarrow> string" where
  "strip_space s = rev (dropWhile is_space (rev (dropWhile is_space s)))"

text \<open>The value of a character as a digit of \<open>int(s, base)\<close>: 0-9, then a-z or A-Z for 10-35.\<close>

definition digit_value :: "char \<Rightarrow> nat option" where
  "digit_value c =
     (let n = (of_char c :: nat) in
      if 48 \<le> n \<and> n \<le> 57 then Some (n - 48)
      else if 97 \<le> n \<and> n \<le> 122 then Some (n - 87)
      else if 65 \<le> n \<and> n \<le> 90 then Some (n - 55)
      else None)"

definition is_digit_of :: "nat \<Rightarrow> char \<Rightarrow> bool" where
  "is_digit_of base c = (case digit_value c of None \<Rightarrow> False | Some d \<Rightarrow> d < base)"

text \<open>
  The body of an integer literal: digits of the base with single underscores between
  them; no leading, trailing or doubled underscore, and at least one digit.
\<close>

fun digits_ok :: "nat \<Rightarrow> bool \<Rightarrow> string \<Rightarrow> bool" where
  "digits_ok base prev_us [] = (\<not> prev_us)"
| "digits_ok base prev_us (c # cs) =
     (if c = CHR ''_'' then \<not> prev_us \<and> digits_ok base True cs
      else is_digit_of base c \<and> digits_ok base False cs)"

definition body_ok :: "nat \<Rightarrow> string \<Rightarrow> bool" where
  "body_ok base s = (s \<noteq> [] \<and> hd s \<noteq> CHR ''_'' \<and> digits_ok base False s)"

definition body_value :: "nat \<Rightarrow> string \<Rightarrow> nat" where
  "body_value base s =
     foldl (\<lambda>acc c. case digit_value c of None \<Rightarrow> acc | Some d \<Rightarrow> acc * base + d) 0 s"

definition has_prefix_char :: "string \<Rightarrow> char \<Rightarrow> char \<Rightarrow> bool" where
  "has_prefix_char s lo up =
     (case s of z # x # _ \<Rightarrow> z = CHR ''0'' \<and> (x = lo \<or> x = up) | _ \<Rightarrow> False)"

text \<open>
  \<open>int(s, base)\<close> on a string, after CPython's \<open>PyLong_FromString\<close>: \<open>None\<close> is
  \<open>ValueError\<close>. Base 0 reads the base from a \<open>0x\<close>, \<open>0o\<close> or \<open>0b\<close> prefix and
  otherwise accepts a decimal literal, one with a leading zero only when its value is zero.
\<close>

definition py_int_base :: "string \<Rightarrow> int \<Rightarrow> int option" where
  "py_int_base s base =
     (if \<not> (base = 0 \<or> (2 \<le> base \<and> base \<le> 36)) then None
      else
        let t = strip_space s;
            neg = (t \<noteq> [] \<and> hd t = CHR ''-'');
            u = (if t \<noteq> [] \<and> (hd t = CHR ''+'' \<or> hd t = CHR ''-'') then tl t else t);
            old_octal = (base = 0 \<and> u \<noteq> [] \<and> hd u = CHR ''0''
                         \<and> \<not> has_prefix_char u CHR ''x'' CHR ''X''
                         \<and> \<not> has_prefix_char u CHR ''o'' CHR ''O''
                         \<and> \<not> has_prefix_char u CHR ''b'' CHR ''B'');
            b = (if base = 0 then
                   (if has_prefix_char u CHR ''x'' CHR ''X'' then 16
                    else if has_prefix_char u CHR ''o'' CHR ''O'' then 8
                    else if has_prefix_char u CHR ''b'' CHR ''B'' then 2
                    else 10)
                 else nat base);
            pre = ((b = 16 \<and> has_prefix_char u CHR ''x'' CHR ''X'')
                   \<or> (b = 8 \<and> has_prefix_char u CHR ''o'' CHR ''O'')
                   \<or> (b = 2 \<and> has_prefix_char u CHR ''b'' CHR ''B''));
            v = (if pre then drop 2 u else u);
            w = (if pre \<and> v \<noteq> [] \<and> hd v = CHR ''_'' then tl v else v)
        in if \<not> body_ok b w then None
           else if old_octal \<and> body_value b w \<noteq> 0 then None
           else Some (if neg then - int (body_value b w) else int (body_value b w)))"

definition py_int :: "string \<Rightarrow> int option" where
  "py_int s = py_int_base s 10"

section \<open>Dates\<close>

record datetime =
  year :: int
  month :: int
  day :: int
  hour :: int
  minute :: int
  second :: int
  microsecond :: int

definition is_leap :: "int \<Rightarrow> bool" where
  "is_leap y = (y mod 4 = 0 \<and> (if y mod 100 = 0 then y mod 400 = 0 else True))"

definition days_in_month :: "int \<Rightarrow> int \<Rightarrow> int" where
  "days_in_month y m =
     (if m = 2 then (if is_leap y then 29 else 28)
      else if m = 4 \<or> m = 6 \<or> m = 9 \<or> m = 11 then 30 else 31)"

text \<open>
  The constructor \<open>datetime(year, month, day, hour, minute, second, microsecond)\<close>;
  \<open>None\<close> is the \<open>ValueError\<close> of a field out of range.
\<close>

definition mk_datetime :: "int \<Rightarrow> int \<Rightarrow> int \<Rightarrow> int \<Rightarrow> int \<Rightarrow> int \<Rightarrow> int \<Rightarrow> datetime option" where
  "mk_datetime y m d H M S us =
     (if 1 \<le> y \<and> y \<le> 9999 \<and> 1 \<le> m \<and> m \<le> 12 \<and> 1 \<le> d \<and> d \<le> days_in_month y m
         \<and> 0 \<le> H \<and> H \<le> 23 \<and> 0 \<le> M \<and> M \<le> 59 \<and> 0 \<le> S \<and> S \<le> 59
         \<and> 0 \<le> us \<and> us \<le> 999999
      then Some \<lparr>year = y, month = m, day = d, hour = H, minute = M, second = S,
                 microsecond = us\<rparr>
      else None)"

section \<open>The FTP provider: timestamps from file names\<close>

text \<open>
  \<open>FTPDataProvider._get_date\<close> and \<open>get_asset\<close> find the base name with a loop that
  restarts the name at every slash.
\<close>

definition ftp_basename :: "string \<Rightarrow> string" where
  "ftp_basename path = foldl (\<lambda>name i. if i = CHR ''/'' then [] else name @ [i]) [] path"

text \<open>
  \<open>while not name[i] in '0123456789' and i < len(name): i += 1\<close>. The index is read
  before it is compared with the length, so a name without a digit ends in
  \<open>IndexError\<close> (\<open>None\<close>), which the enclosing bare \<open>except\<close> catches.
\<close>

function skip_letters :: "string \<Rightarrow> nat \<Rightarrow> nat option" where
  "skip_letters name i =
     (if length name \<le> i then None
      else if name ! i \<in> set ''0123456789'' then Some i
      else skip_letters name (Suc i))"
  by pat_completeness auto
termination
  by (relation "measure (\<lambda>(name, i). length name - i)") auto

declare skip_letters.simps [simp del]

text \<open>
  The three branches test \<open>len(name)\<close>, the length of the whole base name, and the last
  one calls \<open>int(datestr[7:9], int(datestr[9:11]))\<close>: the second slice is the base of
  the first, and the result is the hour. Every exception of the block gives \<open>None\<close>.
\<close>

definition get_date :: "string \<Rightarrow> datetime option" where
  "get_date path =
     (let name = ftp_basename path in
      case skip_letters name 0 of
        None \<Rightarrow> None
      | Some i \<Rightarrow>
          let datestr = drop i name in
          if length name = 6 then
            (case py_int (slice datestr 0 4) of None \<Rightarrow> None | Some y \<Rightarrow>
             case py_int (slice datestr 4 6) of None \<Rightarrow> None | Some m \<Rightarrow>
               mk_datetime y m 1 0 0 0 0)
          else if length name = 12 then
            (case py_int (slice datestr 0 2) of None \<Rightarrow> None | Some y \<Rightarrow>
             case py_int (slice datestr 2 4) of None \<Rightarrow> None | Some m \<Rightarrow>
             case py_int (slice datestr 4 6) of None \<Rightarrow> None | Some d \<Rightarrow>
               mk_datetime (2000 + y) m d 0 0 0 0)
          else
            (case py_int (slice datestr 0 2) of None \<Rightarrow> None | Some y \<Rightarrow>
             case py_int (slice datestr 2 4) of None \<Rightarrow> None | Some m \<Rightarrow>
             case py_int (slice datestr 4 6) of None \<Rightarrow> None | Some d \<Rightarrow>
             case py_int (slice datestr 9 11) of None \<Rightarrow> None | Some base \<Rightarrow>
             case py_int_base (slice datestr 7 9) base of None \<Rightarrow> None | Some h \<Rightarrow>
               mk_datetime (2000 + y) m d h 0 0 0))"

section \<open>Errors\<close>

text \<open>
  The exceptions of \<open>afterglow_core.errors\<close> that the providers raise, and the Python
  and library exceptions that escape them. \<open>FilesystemError\<close> carries the operating
  system's error it wraps.
\<close>

datatype os_error =
  FileExistsError | FileNotFoundError | NotADirectoryError | IsADirectoryError
  | BadGzipFile | InvalidDataStream

datatype ftp_exc = error_reply | error_temp | error_perm | error_proto | EOFError

datatype error =
  AssetOutsideRootError
  | AssetNotFoundError
  | AssetAlreadyExistsError
  | CannotUpdateCollectionAssetError
  | UnrecognizedDataFormatError
  | FilesystemError os_error
  | ValidationError string string
  | IndexError
  | AttributeError
  | OSError os_error
  | FtpError ftp_exc


section \<open>The FTP provider: collection or leaf\<close>

text \<open>
  What the remote server answers: \<open>cwd\<close> gives the exception \<open>ftp.cwd(path)\<close> raises, if
  any, and \<open>nlst\<close> the listing \<open>ftp.nlst(path)\<close> returns or the exception it raises.
\<close>

record ftp_server =
  cwd :: "string \<Rightarrow> ftp_exc option"
  nlst :: "string \<Rightarrow> ftp_exc + string list"

text \<open>
  The block of \<open>FTPDataProvider.get_asset\<close> that sets \<open>collection\<close>. Only
  \<open>error_perm\<close> is caught; \<open>ftp.nlst(path)[0]\<close> is read before it is tested, so an
  empty listing is an \<open>IndexError\<close>.
\<close>

definition ftp_collection :: "ftp_server \<Rightarrow> string \<Rightarrow> error + bool" where
  "ftp_collection srv path =
     (case cwd srv path of
        None \<Rightarrow> Inr True
      | Some e \<Rightarrow>
          if e = error_perm then
            (case nlst srv path of
               Inl e' \<Rightarrow> Inl (FtpError e')
             | Inr [] \<Rightarrow> Inl IndexError
             | Inr (first # _) \<Rightarrow>
                 if first \<noteq> [] then Inr False else Inl AssetNotFoundError)
          else Inl (FtpError e))"

section \<open>Paths\<close>

text \<open>\<open>s.strip(c)\<close>, \<open>s.rstrip(c)\<close> and \<open>s.replace(a, b)\<close> for single characters.\<close>

definition rstrip_char :: "char \<Rightarrow> string \<Rightarrow> string" where
  "rstrip_char c s = rev (dropWhile (\<lambda>x. x = c) (rev s))"

definition strip_char :: "char \<Rightarrow> string \<Rightarrow> string" where
  "strip_char c s = rstrip_char c (dropWhile (\<lambda>x. x = c) s)"

definition replace_char :: "char \<Rightarrow> char \<Rightarrow> string \<Rightarrow> string" where
  "replace_char a b s = map (\<lambda>x. if x = a then b else x) s"

text \<open>\<open>s.split(c)\<close> for one character, and \<open>c.join(parts)\<close>.\<close>

fun split_char :: "char \<Rightarrow> string \<Rightarrow> string list" where
  "split_char c [] = [[]]"
| "split_char c (x # xs) =
     (if x = c then [] # split_char c xs
      else (case split_char c xs of [] \<Rightarrow> [[x]] | y # ys \<Rightarrow> (x # y) # ys))"

fun join_char :: "char \<Rightarrow> string list \<Rightarrow> string" where
  "join_char c [] = []"
| "join_char c [x] = x"
| "join_char c (x # y # ys) = x @ c # join_char c (y # ys)"

text \<open>
  \<open>s.split(sep)\<close> for a non-empty separator: the leftmost occurrence is cut out, then
  the rest is split.
\<close>

function py_split :: "string \<Rightarrow> string \<Rightarrow> string list" where
  "py_split sep s =
     (if sep = [] \<or> s = [] then [s]
      else if prefix sep s then [] # py_split sep (drop (length sep) s)
      else (case py_split sep (tl s) of [] \<Rightarrow> [[hd s]] | y # ys \<Rightarrow> (hd s # y) # ys))"
  by pat_completeness auto
termination
  by (relation "measure (\<lambda>(sep, s). length s)") auto

declare py_split.simps [simp del]

text \<open>The functions of \<open>posixpath\<close> the provider calls.\<close>

definition join :: "string \<Rightarrow> string \<Rightarrow> string" where
  "join a b =
     (if b \<noteq> [] \<and> hd b = CHR ''/'' then b
      else if a = [] \<or> last a = CHR ''/'' then a @ b
      else a @ CHR ''/'' # b)"

definition norm_step :: "bool \<Rightarrow> string list \<Rightarrow> string \<Rightarrow> string list" where
  "norm_step rooted new_comps seg =
     (if seg = [] \<or> seg = ''.'' then new_comps
      else if seg \<noteq> ''..'' \<or> (\<not> rooted \<and> new_comps = [])
              \<or> (new_comps \<noteq> [] \<and> last new_comps = ''..'')
           then new_comps @ [seg]
      else if new_comps \<noteq> [] then butlast new_comps
      else new_comps)"

definition normpath :: "string \<Rightarrow> string" where
  "normpath path =
     (if path = [] then ''.''
      else
        let initial_slashes =
              (if prefix ''//'' path \<and> \<not> prefix ''///'' path then 2
               else if prefix ''/'' path then 1 else 0 :: nat);
            comps = foldl (norm_step (0 < initial_slashes)) [] (split_char CHR ''/'' path);
            p = replicate initial_slashes CHR ''/'' @ join_char CHR ''/'' comps
        in if p = [] then ''.'' else p)"

text \<open>\<open>os.path.abspath\<close>, with the process's current directory as a parameter.\<close>

definition abspath :: "string \<Rightarrow> string \<Rightarrow> string" where
  "abspath cur path = normpath (if prefix ''/'' path then path else join cur path)"

definition basename :: "string \<Rightarrow> string" where
  "basename p = rev (takeWhile (\<lambda>x. x \<noteq> CHR ''/'') (rev p))"

definition dirname :: "string \<Rightarrow> string" where
  "dirname p =
     (let head = rev (dropWhile (\<lambda>x. x \<noteq> CHR ''/'') (rev p))
      in if head \<noteq> [] \<and> \<not> list_all (\<lambda>x. x = CHR ''/'') head
         then rstrip_char CHR ''/'' head else head)"


section \<open>The local provider: the sandbox\<close>

text \<open>
  \<open>LocalDiskDataProvider._path_to_filename\<close>. \<open>abs_root\<close> is the value of the
  property of that name (the per-user directory and its creation are not modelled) and
  \<open>cur\<close> the current directory of the process. The test is
  \<open>filename.startswith(root)\<close>.
\<close>

definition path_to_filename :: "string \<Rightarrow> string \<Rightarrow> string \<Rightarrow> error + string" where
  "path_to_filename cur abs_root path =
     (let filename = abspath cur (join abs_root (strip_char CHR ''/'' path))
      in if \<not> prefix abs_root filename then Inl AssetOutsideRootError else Inr filename)"

text \<open>
  A path lies inside the root when it is the root or one of its descendants: its
  components start with the root's components.
\<close>

definition components :: "string \<Rightarrow> string list" where
  "components p = filter (\<lambda>c. c \<noteq> []) (split_char CHR ''/'' p)"

definition inside_root :: "string \<Rightarrow> string \<Rightarrow> bool" where
  "inside_root abs_root filename = prefix (components abs_root) (components filename)"

section \<open>The file system\<close>

text \<open>
  The store behind the local provider: the entries of the file system by their
  absolute path, in the order the operating system lists them. The provider names
  every entry by the result of \<open>os.path.abspath\<close> or by a join of such a path with an
  entry's name, so the store is keyed by those strings. An entry carries its
  modification time; the clock is a parameter of the operations that write.
\<close>

datatype node = Dir nat | File bytes nat

type_synonym fs = "(string \<times> node) list"

definition exists :: "fs \<Rightarrow> string \<Rightarrow> bool" where
  "exists fs p = (map_of fs p \<noteq> None)"

definition isdir :: "fs \<Rightarrow> string \<Rightarrow> bool" where
  "isdir fs p = (case map_of fs p of Some (Dir _) \<Rightarrow> True | _ \<Rightarrow> False)"


text \<open>An entry lies below a directory when its path extends the directory's path and a slash.\<close>

definition below :: "string \<Rightarrow> string \<Rightarrow> bool" where
  "below d k = (prefix (join d []) k \<and> k \<noteq> join d [])"

definition listdir :: "fs \<Rightarrow> string \<Rightarrow> string list" where
  "listdir fs d =
     (if isdir fs d then
        filter (\<lambda>n. CHR ''/'' \<notin> set n)
          (map (\<lambda>k. drop (length (join d [])) k) (filter (below d) (map fst fs)))
      else [])"

definition mkdir :: "nat \<Rightarrow> fs \<Rightarrow> string \<Rightarrow> fs \<times> os_error option" where
  "mkdir now fs p =
     (if exists fs p then (fs, Some FileExistsError)
      else case map_of fs (dirname p) of
             Some (Dir _) \<Rightarrow> (AList.update p (Dir now) fs, None)
           | Some (File _ _) \<Rightarrow> (fs, Some NotADirectoryError)
           | None \<Rightarrow> (fs, Some FileNotFoundError))"

lemma dirname_cases:
  "dirname p = rev (dropWhile (\<lambda>x. x \<noteq> CHR ''/'') (rev p))
   \<or> dirname p = rstrip_char CHR ''/'' (rev (dropWhile (\<lambda>x. x \<noteq> CHR ''/'') (rev p)))"
  unfolding dirname_def Let_def by (rule if_split [THEN iffD2]) blast

lemma length_rstrip_char_le: "length (rstrip_char c h) \<le> length h"
  using length_dropWhile_le [of "\<lambda>x. x = c" "rev h"] by (simp add: rstrip_char_def)

lemma length_dirname_le: "length (dirname p) \<le> length p"
proof -
  let ?h = "rev (dropWhile (\<lambda>x. x \<noteq> CHR ''/'') (rev p))"
  have h: "length ?h \<le> length p"
    using length_dropWhile_le [of "\<lambda>x. x \<noteq> CHR ''/''" "rev p"] by simp
  from dirname_cases [of p] show ?thesis
  proof
    assume "dirname p = ?h"
    with h show ?thesis by (simp only:)
  next
    assume "dirname p = rstrip_char CHR ''/'' ?h"
    with h length_rstrip_char_le [of "CHR ''/''" ?h] show ?thesis by simp
  qed
qed

lemma length_dirname_less: "basename p \<noteq> [] \<Longrightarrow> length (dirname p) < length p"
proof -
  assume b: "basename p \<noteq> []"
  let ?h = "rev (dropWhile (\<lambda>x. x \<noteq> CHR ''/'') (rev p))"
  have "length (takeWhile (\<lambda>x. x \<noteq> CHR ''/'') (rev p)) + length ?h = length p"
    using takeWhile_dropWhile_id [of "\<lambda>x. x \<noteq> CHR ''/''" "rev p"]
    by (metis length_append length_rev)
  moreover from b have "0 < length (takeWhile (\<lambda>x. x \<noteq> CHR ''/'') (rev p))"
    by (simp add: basename_def)
  ultimately have h: "length ?h < length p" by linarith
  from dirname_cases [of p] show ?thesis
  proof
    assume "dirname p = ?h"
    with h show ?thesis by (simp only:)
  next
    assume "dirname p = rstrip_char CHR ''/'' ?h"
    with h length_rstrip_char_le [of "CHR ''/''" ?h] show ?thesis by simp
  qed
qed

text \<open>
  \<open>os.makedirs(name)\<close>: the missing ancestors first, by recursion on the directory part,
  then the directory itself. \<open>FileExistsError\<close> from the recursion is passed over.
\<close>

function makedirs :: "nat \<Rightarrow> fs \<Rightarrow> string \<Rightarrow> fs \<times> os_error option" where
  "makedirs now fs name =
     (let head = (if basename name = [] then dirname (dirname name) else dirname name);
          tail = (if basename name = [] then basename (dirname name) else basename name)
      in if head \<noteq> [] \<and> tail \<noteq> [] \<and> \<not> exists fs head then
           (case makedirs now fs head of
              (fs', Some e) \<Rightarrow>
                if e = FileExistsError then
                  (if tail = ''.'' then (fs', None) else mkdir now fs' name)
                else (fs', Some e)
            | (fs', None) \<Rightarrow> if tail = ''.'' then (fs', None) else mkdir now fs' name)
         else mkdir now fs name)"
  by pat_completeness auto
termination
proof (relation "measure (\<lambda>(now, fs, name). length name)", goal_cases)
  case 1
  show ?case by simp
next
  case (2 now fs name head tail)
  show ?case
  proof (cases "basename name = []")
    case True
    with 2 have "basename (dirname name) \<noteq> []" by simp
    then have "length (dirname (dirname name)) < length (dirname name)"
      by (rule length_dirname_less)
    with True 2 length_dirname_le [of name] show ?thesis by simp
  next
    case False
    with 2 length_dirname_less [of name] show ?thesis by simp
  qed
qed

declare makedirs.simps [simp del]

text \<open>\<open>open(p, 'wb')\<close> followed by \<open>write(data)\<close>.\<close>

definition write_file :: "nat \<Rightarrow> fs \<Rightarrow> string \<Rightarrow> bytes \<Rightarrow> fs \<times> os_error option" where
  "write_file now fs p data =
     (case map_of fs p of
        Some (Dir _) \<Rightarrow> (fs, Some IsADirectoryError)
      | _ \<Rightarrow>
        (case map_of fs (dirname p) of
           Some (Dir _) \<Rightarrow> (AList.update p (File data now) fs, None)
         | Some (File _ _) \<Rightarrow> (fs, Some NotADirectoryError)
         | None \<Rightarrow> (fs, Some FileNotFoundError)))"

text \<open>\<open>shutil.rmtree\<close> removes a directory and every entry below it; \<open>os.unlink\<close> and
  \<open>os.remove\<close> remove a file.\<close>

definition rmtree :: "fs \<Rightarrow> string \<Rightarrow> fs \<times> os_error option" where
  "rmtree fs p =
     (case map_of fs p of
        Some (Dir _) \<Rightarrow> (filter (\<lambda>(k, _). k \<noteq> p \<and> \<not> below p k) fs, None)
      | Some (File _ _) \<Rightarrow> (fs, Some NotADirectoryError)
      | None \<Rightarrow> (fs, Some FileNotFoundError))"

definition unlink :: "fs \<Rightarrow> string \<Rightarrow> fs \<times> os_error option" where
  "unlink fs p =
     (case map_of fs p of
        Some (File _ _) \<Rightarrow> (AList.delete p fs, None)
      | Some (Dir _) \<Rightarrow> (fs, Some IsADirectoryError)
      | None \<Rightarrow> (fs, Some FileNotFoundError))"

text \<open>A store is well formed only if nothing lies below a file.\<close>

fun is_file_node :: "node \<Rightarrow> bool" where
  "is_file_node (File _ _) = True"
| "is_file_node (Dir _) = False"

definition files_are_leaves :: "fs \<Rightarrow> bool" where
  "files_are_leaves fs =
     list_all (\<lambda>(k, _). \<not> list_ex (\<lambda>(f, n). is_file_node n \<and> below f k) fs) fs"



section \<open>Values, decoders and the environment\<close>

text \<open>The Python values that appear in headers, EXIF tags and asset metadata.\<close>

datatype pyval =
  PyNone | PyBool bool | PyInt int | PyFloat real | PyStr string | PyDatetime datetime

text \<open>Truth value of \<open>if v:\<close>.\<close>

fun truthy :: "pyval \<Rightarrow> bool" where
  "truthy PyNone = False"
| "truthy (PyBool b) = b"
| "truthy (PyInt i) = (i \<noteq> 0)"
| "truthy (PyFloat x) = (x \<noteq> 0)"
| "truthy (PyStr s) = (s \<noteq> [])"
| "truthy (PyDatetime _) = True"


type_synonym header = "(string \<times> pyval) list"

text \<open>What \<open>PIL.Image.open\<close> and \<open>rawpy.imread\<close> return, as far as the provider reads them.
  \<open>getexif\<close> is \<open>None\<close> when \<open>im.getexif()\<close> raises.\<close>

record pil_image =
  format :: string
  bands :: "string list"
  im_size :: "int \<times> int"
  getexif :: "(nat \<times> pyval) list option"

record raw_image =
  raw_type :: string
  num_colors :: int
  color_desc :: bytes
  sizes_width :: int
  sizes_height :: int

text \<open>\<open>DataProviderAsset\<close>; the metadata dictionary keeps the order of its keys.\<close>

record asset =
  name :: string
  collection :: bool
  path :: string
  metadata :: "(string \<times> pyval) list"

text \<open>
  The libraries and the process state the provider depends on. A decoder reads the
  bytes of a file and returns \<open>None\<close> when it raises. \<open>have_PIL\<close>, \<open>have_rawpy\<close> and
  \<open>have_exifread\<close> say whether the optional imports succeeded. \<open>strptime s fmt\<close> is
  \<open>None\<close> for \<open>ValueError\<close>. \<open>fnmatch_brackets\<close> matches a name against a pattern
  with a bracket expression, which is not modelled further; \<open>convert_exif_field\<close> is
  the helper of \<open>afterglow_core.resources.data_files\<close>, which is not among the
  sources. \<open>search_unresolved\<close> is the result of a search whose name pattern the
  operating system has to resolve (a pattern with a separator, or \<open>.\<close> or \<open>..\<close>):
  the store below is keyed by resolved paths and does not model that resolution.
\<close>

record env =
  cur_dir :: string
  have_PIL :: bool
  have_rawpy :: bool
  have_exifread :: bool
  pyfits_open :: "bytes \<Rightarrow> header list option"
  PIL_open :: "bytes \<Rightarrow> pil_image option"
  rawpy_imread :: "bytes \<Rightarrow> raw_image option"
  exifread_process_file :: "bytes \<Rightarrow> (string \<times> pyval) list option"
  ExifTags_TAGS :: "nat \<Rightarrow> string option"
  convert_exif_field :: "pyval \<Rightarrow> pyval"
  strptime :: "string \<Rightarrow> string \<Rightarrow> datetime option"
  fromtimestamp :: "nat \<Rightarrow> datetime"
  py_str :: "pyval \<Rightarrow> string"
  fnmatch_brackets :: "string \<Rightarrow> string \<Rightarrow> bool"
  gzip_read :: "bytes \<Rightarrow> bytes option"
  bz2_read :: "bytes \<Rightarrow> bytes option"
  search_unresolved ::
    "(string \<times> node) list \<Rightarrow> string \<Rightarrow> string \<Rightarrow> string list option \<Rightarrow> bool option
     \<Rightarrow> int option \<Rightarrow> int option \<Rightarrow> error + asset list"

text \<open>\<open>datetime.isoformat()\<close>: the microseconds are printed only when they are not zero.\<close>

fun zero_pad :: "nat \<Rightarrow> int \<Rightarrow> string" where
  "zero_pad 0 n = []"
| "zero_pad (Suc w) n = zero_pad w (n div 10) @ [''0123456789'' ! nat (n mod 10)]"

definition isoformat :: "datetime \<Rightarrow> string" where
  "isoformat t =
     zero_pad 4 (year t) @ ''-'' @ zero_pad 2 (month t) @ ''-''
     @ zero_pad 2 (day t) @ ''T'' @ zero_pad 2 (hour t) @ '':''
     @ zero_pad 2 (minute t) @ '':'' @ zero_pad 2 (second t)
     @ (if microsecond t = 0 then [] else ''.'' @ zero_pad 6 (microsecond t))"

section \<open>Globbing\<close>

text \<open>
  \<open>fnmatch\<close> for a pattern of literals, \<open>?\<close> and \<open>*\<close>; a pattern with a bracket is
  left to the environment.
\<close>

fun wild_match :: "string \<Rightarrow> string \<Rightarrow> bool" where
  "wild_match [] s = (s = [])"
| "wild_match (x # pat) s =
     (if x = CHR ''*'' then
        (wild_match pat s \<or> (case s of [] \<Rightarrow> False | _ # cs \<Rightarrow> wild_match (x # pat) cs))
      else (case s of [] \<Rightarrow> False | c # cs \<Rightarrow> (x = CHR ''?'' \<or> x = c) \<and> wild_match pat cs))"

definition fnmatch :: "env \<Rightarrow> string \<Rightarrow> string \<Rightarrow> bool" where
  "fnmatch E n pat =
     (if CHR ''['' \<in> set pat then fnmatch_brackets E n pat else wild_match pat n)"

definition has_magic :: "string \<Rightarrow> bool" where
  "has_magic s = list_ex (\<lambda>c. c = CHR ''*'' \<or> c = CHR ''?'' \<or> c = CHR ''['') s"

definition ishidden :: "string \<Rightarrow> bool" where
  "ishidden s = (s \<noteq> [] \<and> hd s = CHR ''.'')"

definition glob0 :: "fs \<Rightarrow> string \<Rightarrow> string \<Rightarrow> string list" where
  "glob0 fs d b =
     (if b = [] then (if isdir fs d then [b] else [])
      else if exists fs (join d b) then [b] else [])"

definition glob1 :: "env \<Rightarrow> fs \<Rightarrow> string \<Rightarrow> string \<Rightarrow> string list" where
  "glob1 E fs d pat =
     filter (\<lambda>n. fnmatch E n pat)
       (if ishidden pat then listdir fs d else filter (\<lambda>n. \<not> ishidden n) (listdir fs d))"

lemma rstrip_char_prefix: "prefix (rstrip_char c h) h"
proof -
  have "rev h = takeWhile (\<lambda>x. x = c) (rev h) @ dropWhile (\<lambda>x. x = c) (rev h)" by simp
  then have "h = rev (dropWhile (\<lambda>x. x = c) (rev h)) @ rev (takeWhile (\<lambda>x. x = c) (rev h))"
    by (metis rev_append rev_rev_ident)
  then show ?thesis unfolding rstrip_char_def by (metis prefixI)
qed

lemma dirname_prefix: "prefix (dirname p) p"
proof -
  let ?h = "rev (dropWhile (\<lambda>x. x \<noteq> CHR ''/'') (rev p))"
  have "rev p = takeWhile (\<lambda>x. x \<noteq> CHR ''/'') (rev p) @ dropWhile (\<lambda>x. x \<noteq> CHR ''/'') (rev p)"
    by simp
  then have "p = ?h @ rev (takeWhile (\<lambda>x. x \<noteq> CHR ''/'') (rev p))"
    by (metis rev_append rev_rev_ident)
  then have h: "prefix ?h p" by (metis prefixI)
  from dirname_cases [of p] show ?thesis
  proof
    assume "dirname p = ?h"
    with h show ?thesis by simp
  next
    assume "dirname p = rstrip_char CHR ''/'' ?h"
    with h rstrip_char_prefix [of "CHR ''/''" ?h] show ?thesis
      by (metis prefix_order.order_trans)
  qed
qed

text \<open>
  \<open>glob.glob(pathname)\<close>: without a magic character the path itself when it exists;
  otherwise the matching entries of the directory part, which is globbed first when
  it has a magic character of its own.
\<close>

function glob :: "env \<Rightarrow> fs \<Rightarrow> string \<Rightarrow> string list" where
  "glob E fs pathname =
     (let d = dirname pathname; b = basename pathname
      in if \<not> has_magic pathname then
           (if b \<noteq> [] then (if exists fs pathname then [pathname] else [])
            else if isdir fs d then [pathname] else [])
         else if d = [] then
           (if has_magic b then glob1 E fs (cur_dir E) b else glob0 fs (cur_dir E) b)
         else
           concat (map (\<lambda>dn. map (join dn) (if has_magic b then glob1 E fs dn b else glob0 fs dn b))
                    (if d \<noteq> pathname \<and> has_magic d then glob E fs d else [d])))"
  by pat_completeness auto
termination
proof (relation "measure (\<lambda>(E, fs, pathname). length pathname)", goal_cases)
  case 1
  show ?case by simp
next
  case (2 E fs pathname d b)
  with dirname_prefix [of pathname] have "strict_prefix d pathname"
    by (simp add: strict_prefix_def)
  then show ?case by (simp add: prefix_length_less)
qed

declare glob.simps [simp del]

section \<open>The local provider: assets and their metadata\<close>

text \<open>The local variables of \<open>_get_asset\<close> that the probes assign.\<close>

record vars =
  imtype :: pyval
  layers :: pyval
  imwidth :: pyval
  imheight :: pyval
  explength :: pyval
  exptime :: pyval
  telescope :: pyval
  flt :: pyval

definition no_vars :: vars where
  "no_vars = \<lparr>imtype = PyNone, layers = PyNone, imwidth = PyNone, imheight = PyNone,
               explength = PyNone, exptime = PyNone, telescope = PyNone, flt = PyNone\<rparr>"

text \<open>
  The observation time of a FITS header: four \<open>strptime\<close> attempts, each tried when
  the one before raises \<open>ValueError\<close>. A missing \<open>DATE-OBS\<close> or \<open>TIME-OBS\<close> is a
  \<open>KeyError\<close>, which leaves \<open>exptime\<close> as it is; a value that is not a string is a
  \<open>TypeError\<close>, which leaves the whole FITS block.
\<close>

datatype obs_time = ObsRaises | ObsAbsent | ObsTime datetime

definition fits_obs_time :: "env \<Rightarrow> header \<Rightarrow> obs_time" where
  "fits_obs_time E h =
     (case map_of h ''DATE-OBS'' of
        None \<Rightarrow> ObsAbsent
      | Some (PyStr d) \<Rightarrow>
          (case strptime E d ''%Y-%m-%dT%H:%M:%S.%f'' of
             Some t \<Rightarrow> ObsTime t
           | None \<Rightarrow>
          (case strptime E d ''%Y-%m-%dT%H:%M:%S'' of
             Some t \<Rightarrow> ObsTime t
           | None \<Rightarrow>
          (case map_of h ''TIME-OBS'' of
             None \<Rightarrow> ObsAbsent
           | Some (PyStr tm) \<Rightarrow>
               (case strptime E (d @ ''T'' @ tm) ''%Y-%m-%dT%H:%M:%S.%f'' of
                  Some t \<Rightarrow> ObsTime t
                | None \<Rightarrow>
               (case strptime E (d @ ''T'' @ tm) ''%Y-%m-%dT%H:%M:%S'' of
                  Some t \<Rightarrow> ObsTime t
                | None \<Rightarrow> ObsAbsent))
           | Some _ \<Rightarrow> ObsRaises)))
      | Some _ \<Rightarrow> ObsRaises)"

text \<open>\<open>','.join(...)\<close> raises \<open>TypeError\<close> (\<open>None\<close>) when an item is not a string.\<close>

fun str_items :: "pyval list \<Rightarrow> string list option" where
  "str_items [] = Some []"
| "str_items (PyStr x # vs) = (case str_items vs of None \<Rightarrow> None | Some xs \<Rightarrow> Some (x # xs))"
| "str_items (_ # vs) = None"

definition filter_cards :: "header list \<Rightarrow> pyval list" where
  "filter_cards f = concat (map (\<lambda>h. case map_of h ''FILTER'' of None \<Rightarrow> [] | Some v \<Rightarrow> [v]) f)"

text \<open>
  The FITS block. Each assignment stays when a later statement of the block raises;
  \<open>imtype\<close> is assigned last, after the block.
\<close>

definition probe_fits :: "env \<Rightarrow> bytes \<Rightarrow> vars \<Rightarrow> vars" where
  "probe_fits E data v0 =
     (case pyfits_open E data of
        None \<Rightarrow> v0
      | Some f \<Rightarrow>
          let v1 = v0\<lparr>layers := PyInt (int (length f))\<rparr> in
          (case f of
             [] \<Rightarrow> v1
           | h # _ \<Rightarrow>
          (case map_of h ''NAXIS1'' of
             None \<Rightarrow> v1
           | Some w \<Rightarrow>
          let v2 = v1\<lparr>imwidth := w\<rparr> in
          (case map_of h ''NAXIS2'' of
             None \<Rightarrow> v2
           | Some ht \<Rightarrow>
          let v3 = v2\<lparr>imheight := ht\<rparr>;
              v4 = (case map_of h ''EXPOSURE'' of None \<Rightarrow> v3 | Some e \<Rightarrow> v3\<lparr>explength := e\<rparr>);
              v5 = (case map_of h ''TELESCOP'' of None \<Rightarrow> v4 | Some t \<Rightarrow> v4\<lparr>telescope := t\<rparr>)
          in
          (case str_items (filter_cards f) of
             None \<Rightarrow> v5
           | Some fl \<Rightarrow>
          let v6 = v5\<lparr>flt := PyStr (join_char CHR '','' fl)\<rparr> in
          (case fits_obs_time E h of
             ObsRaises \<Rightarrow> v6
           | ObsAbsent \<Rightarrow> v6\<lparr>imtype := PyStr ''FITS''\<rparr>
           | ObsTime t \<Rightarrow> v6\<lparr>exptime := PyDatetime t, imtype := PyStr ''FITS''\<rparr>))))))"

text \<open>A Python dictionary built from a sequence of items: a later item replaces an earlier one
  with the same key.\<close>

definition dict_of :: "(string \<times> pyval) list \<Rightarrow> (string \<rightharpoonup> pyval)" where
  "dict_of kvs = map_of (rev kvs)"

text \<open>The dictionary comprehension over \<open>im.getexif()\<close>: \<open>ExifTags.TAGS[key]\<close> raises
  \<open>KeyError\<close> for a tag it does not know.\<close>

fun pil_exif_items :: "env \<Rightarrow> (nat \<times> pyval) list \<Rightarrow> (string \<times> pyval) list option" where
  "pil_exif_items E [] = Some []"
| "pil_exif_items E ((k, v) # kvs) =
     (case ExifTags_TAGS E k of
        None \<Rightarrow> None
      | Some tag \<Rightarrow>
          (case pil_exif_items E kvs of
             None \<Rightarrow> None
           | Some r \<Rightarrow> Some ((tag, convert_exif_field E v) # r)))"

text \<open>The Pillow block: \<open>imtype\<close> is assigned first, so it stays when the EXIF
  dictionary cannot be built.\<close>

definition probe_pil :: "env \<Rightarrow> bytes \<Rightarrow> vars \<Rightarrow> vars \<times> (string \<rightharpoonup> pyval) option" where
  "probe_pil E data v0 =
     (case PIL_open E data of
        None \<Rightarrow> (v0, None)
      | Some im \<Rightarrow>
          let v1 = v0\<lparr>imtype := PyStr (format im),
                      layers := PyInt (int (length (bands im))),
                      flt := PyStr (join_char CHR '','' (bands im)),
                      imwidth := PyInt (fst (im_size im)),
                      imheight := PyInt (snd (im_size im))\<rparr>
          in (case getexif im of
                None \<Rightarrow> (v1, None)
              | Some items \<Rightarrow>
                  (case pil_exif_items E items of
                     None \<Rightarrow> (v1, None)
                   | Some kvs \<Rightarrow> (v1, Some (dict_of kvs)))))"

definition probe_raw :: "env \<Rightarrow> bytes \<Rightarrow> vars \<Rightarrow> vars" where
  "probe_raw E data v0 =
     (case rawpy_imread E data of
        None \<Rightarrow> v0
      | Some im \<Rightarrow>
          v0\<lparr>imtype := PyStr (raw_type im),
             layers := PyInt (num_colors im),
             flt := PyStr (join_char CHR '','' (map (\<lambda>b. [b]) (color_desc im))),
             imwidth := PyInt (sizes_width im),
             imheight := PyInt (sizes_height im)\<rparr>)"

text \<open>\<open>key.split(None, 1)[-1]\<close>: the key without its first word; \<open>None\<close> is the
  \<open>IndexError\<close> of a key without a word.\<close>

definition exif_key_tail :: "string \<Rightarrow> string option" where
  "exif_key_tail k =
     (let k1 = dropWhile is_space k;
          rest = dropWhile is_space (dropWhile (\<lambda>c. \<not> is_space c) k1)
      in if k1 = [] then None
         else if rest = [] then Some (takeWhile (\<lambda>c. \<not> is_space c) k1)
         else Some rest)"

fun exifread_items :: "env \<Rightarrow> (string \<times> pyval) list \<Rightarrow> (string \<times> pyval) list option" where
  "exifread_items E [] = Some []"
| "exifread_items E ((k, v) # kvs) =
     (case exif_key_tail k of
        None \<Rightarrow> None
      | Some tag \<Rightarrow>
          (case exifread_items E kvs of
             None \<Rightarrow> None
           | Some r \<Rightarrow> Some ((tag, convert_exif_field E v) # r)))"

text \<open>The ExifRead block runs only for a file whose type is already known; when it raises,
  the dictionary of the Pillow block stays.\<close>

definition read_exif :: "env \<Rightarrow> bytes \<Rightarrow> vars \<Rightarrow> (string \<rightharpoonup> pyval) option \<Rightarrow> (string \<rightharpoonup> pyval) option" where
  "read_exif E data v exif =
     (if imtype v \<noteq> PyNone \<and> have_exifread E then
        (case exifread_process_file E data of
           None \<Rightarrow> exif
         | Some items \<Rightarrow>
             (case exifread_items E items of None \<Rightarrow> exif | Some kvs \<Rightarrow> Some (dict_of kvs)))
      else exif)"

text \<open>Exposure length and time from the EXIF dictionary: the three statements of the
  block under \<open>if exif is not None\<close>. A time that neither format parses stays as the
  tag's value.\<close>

definition exif_exposure :: "(string \<rightharpoonup> pyval) \<Rightarrow> vars \<Rightarrow> vars" where
  "exif_exposure exif v =
     (case exif ''ExposureTime'' of None \<Rightarrow> v | Some e \<Rightarrow> v\<lparr>explength := e\<rparr>)"

definition exif_time_tag :: "(string \<rightharpoonup> pyval) \<Rightarrow> vars \<Rightarrow> vars" where
  "exif_time_tag exif v =
     (case exif ''DateTime'' of
        Some t \<Rightarrow> v\<lparr>exptime := t\<rparr>
      | None \<Rightarrow>
          (case exif ''DateTimeOriginal'' of
             Some t \<Rightarrow> v\<lparr>exptime := t\<rparr>
           | None \<Rightarrow>
               (case exif ''DateTimeDigitized'' of
                  Some t \<Rightarrow> v\<lparr>exptime := t\<rparr>
                | None \<Rightarrow> v)))"

definition exif_parse_time :: "env \<Rightarrow> vars \<Rightarrow> vars" where
  "exif_parse_time E v =
     (if truthy (exptime v) then
        (case strptime E (py_str E (exptime v)) ''%Y:%m:%d %H:%M:%S.%f'' of
           Some t \<Rightarrow> v\<lparr>exptime := PyDatetime t\<rparr>
         | None \<Rightarrow>
             (case strptime E (py_str E (exptime v)) ''%Y:%m:%d %H:%M:%S'' of
                Some t \<Rightarrow> v\<lparr>exptime := PyDatetime t\<rparr>
              | None \<Rightarrow> v))
      else v)"

definition apply_exif :: "env \<Rightarrow> (string \<rightharpoonup> pyval) \<Rightarrow> vars \<Rightarrow> vars" where
  "apply_exif E exif v = exif_parse_time E (exif_time_tag exif (exif_exposure exif v))"

text \<open>
  The probes of \<open>_get_asset\<close> on the bytes of a file, in the order of the source: FITS;
  then, when no type is set and Pillow or rawpy is installed, Pillow; then rawpy when
  still no type is set; then ExifRead and the EXIF fields.
\<close>

definition classify :: "env \<Rightarrow> bytes \<Rightarrow> vars" where
  "classify E data =
     (let v1 = probe_fits E data no_vars in
      if imtype v1 = PyNone \<and> (have_PIL E \<or> have_rawpy E) then
        let (v2, exif2) = (if have_PIL E then probe_pil E data v1 else (v1, None));
            v3 = (if imtype v2 = PyNone \<and> have_rawpy E then probe_raw E data v2 else v2);
            exif3 = read_exif E data v3 exif2
        in (case exif3 of None \<Rightarrow> v3 | Some exif \<Rightarrow> apply_exif E exif v3)
      else v1)"

definition optional_item :: "string \<Rightarrow> pyval \<Rightarrow> (string \<times> pyval) list" where
  "optional_item k v = (if v = PyNone then [] else [(k, v)])"

text \<open>
  \<open>LocalDiskDataProvider._get_asset(path, filename)\<close>. A directory is a collection with
  its modification time. A file is classified; without a type it is unrecognized. A
  missing file fails in \<open>open(filename, 'rb')\<close> when that statement is reached. The
  time is \<open>exptime.isoformat()\<close>, an \<open>AttributeError\<close> when \<open>exptime\<close> is not a
  datetime.
\<close>

definition get_asset' :: "env \<Rightarrow> fs \<Rightarrow> string \<Rightarrow> string \<Rightarrow> error + asset" where
  "get_asset' E fs apath filename =
     (let p = strip_char CHR ''/'' (replace_char (CHR 0x5C) CHR ''/'' apath);
          nm = basename filename
      in case map_of fs filename of
           Some (Dir mtime) \<Rightarrow>
             Inr \<lparr>name = nm, collection = True, path = p,
                  metadata = [(''time'', PyStr (isoformat (fromtimestamp E mtime)))]\<rparr>
         | None \<Rightarrow>
             if have_PIL E \<or> have_rawpy E then Inl (OSError FileNotFoundError)
             else Inl UnrecognizedDataFormatError
         | Some (File data mtime) \<Rightarrow>
             let v = classify E data in
             if imtype v = PyNone then Inl UnrecognizedDataFormatError
             else
               (case (case exptime v of
                        PyNone \<Rightarrow> Some (isoformat (fromtimestamp E mtime))
                      | PyDatetime t \<Rightarrow> Some (isoformat t)
                      | _ \<Rightarrow> None) of
                  None \<Rightarrow> Inl AttributeError
                | Some tm \<Rightarrow>
                    Inr \<lparr>name = nm, collection = False, path = p,
                         metadata =
                           [(''type'', imtype v), (''size'', PyInt (int (length data))),
                            (''time'', PyStr tm), (''layers'', layers v),
                            (''width'', imwidth v), (''height'', imheight v)]
                           @ optional_item ''exposure'' (explength v)
                           @ optional_item ''telescope'' (telescope v)
                           @ optional_item ''filter'' (flt v)\<rparr>))"

section \<open>The local provider: operations\<close>

text \<open>
  Every operation takes the environment, the store and the value of \<open>abs_root\<close>. An
  operation that writes also takes the clock and returns the store it leaves, whether
  it returns or raises.
\<close>

definition get_asset :: "env \<Rightarrow> fs \<Rightarrow> string \<Rightarrow> string \<Rightarrow> error + asset" where
  "get_asset E fs abs_root apath =
     (case path_to_filename (cur_dir E) abs_root apath of
        Inl e \<Rightarrow> Inl e
      | Inr filename \<Rightarrow>
          if \<not> exists fs filename then Inl AssetNotFoundError
          else get_asset' E fs apath filename)"

text \<open>\<open>fn.split(root + os.path.sep)[1]\<close>: \<open>None\<close> is the \<open>IndexError\<close> of a name that
  does not contain the root and a slash.\<close>

definition rel_path :: "string \<Rightarrow> string \<Rightarrow> string option" where
  "rel_path abs_root fn =
     (case py_split (abs_root @ ''/'') fn of _ # p # _ \<Rightarrow> Some p | _ \<Rightarrow> None)"

fun mtime_of :: "node \<Rightarrow> nat" where
  "mtime_of (Dir t) = t"
| "mtime_of (File _ t) = t"

definition child_asset :: "env \<Rightarrow> fs \<Rightarrow> string \<Rightarrow> string \<Rightarrow> error + asset" where
  "child_asset E fs abs_root fn =
     (case rel_path abs_root fn of
        None \<Rightarrow> Inl IndexError
      | Some p \<Rightarrow>
          (case map_of fs fn of
             None \<Rightarrow> Inl (OSError FileNotFoundError)
           | Some nd \<Rightarrow>
               Inr \<lparr>name = basename fn, collection = isdir fs fn,
                    path = replace_char (CHR 0x5C) CHR ''/'' p,
                    metadata = [(''time'', PyStr (isoformat (fromtimestamp E (mtime_of nd))))]\<rparr>))"

text \<open>A list comprehension stops at the first element that raises.\<close>

fun collect :: "(error + 'a) list \<Rightarrow> error + 'a list" where
  "collect [] = Inr []"
| "collect (Inl e # _) = Inl e"
| "collect (Inr x # rs) = (case collect rs of Inl e \<Rightarrow> Inl e | Inr xs \<Rightarrow> Inr (x # xs))"

definition get_child_assets :: "env \<Rightarrow> fs \<Rightarrow> string \<Rightarrow> string \<Rightarrow> error + asset list" where
  "get_child_assets E fs abs_root apath =
     (case path_to_filename (cur_dir E) abs_root apath of
        Inl e \<Rightarrow> Inl e
      | Inr filename \<Rightarrow>
          if \<not> isdir fs filename then Inl AssetNotFoundError
          else collect (map (child_asset E fs abs_root) (glob E fs (join filename ''*''))))"














definition update_asset ::
  "env \<Rightarrow> nat \<Rightarrow> fs \<Rightarrow> string \<Rightarrow> string \<Rightarrow> bytes option \<Rightarrow> bool \<Rightarrow> fs \<times> (error + asset)" where
  "update_asset E now fs abs_root apath data force =
     (case path_to_filename (cur_dir E) abs_root apath of
        Inl e \<Rightarrow> (fs, Inl e)
      | Inr filename \<Rightarrow>
          if \<not> exists fs filename then (fs, Inl AssetNotFoundError)
          else if isdir fs filename \<and> \<not> force then (fs, Inl CannotUpdateCollectionAssetError)
          else
            (case (if isdir fs filename then rmtree fs filename else (fs, None)) of
               (fs1, Some e) \<Rightarrow> (fs1, Inl (FilesystemError e))
             | (fs1, None) \<Rightarrow>
                 (case (case data of
                          None \<Rightarrow>
                            (case (if exists fs1 filename then unlink fs1 filename
                                   else (fs1, None)) of
                               (fs2, Some e) \<Rightarrow> (fs2, Some e)
                             | (fs2, None) \<Rightarrow> makedirs now fs2 filename)
                        | Some b \<Rightarrow> write_file now fs1 filename b) of
                    (fs3, Some e) \<Rightarrow> (fs3, Inl (FilesystemError e))
                  | (fs3, None) \<Rightarrow> (fs3, get_asset' E fs3 apath filename))))"

section \<open>The provider with restricted write access\<close>

text \<open>
  \<open>RestrictedRWLocalDiskDataProvider.__getattribute__\<close>: the attribute \<open>readonly\<close>
  is computed from \<open>auth.current_user.username\<close> and the attribute \<open>writers\<close> at
  every access; any other attribute is looked up as usual.
\<close>

record provider =
  writers :: "string list"
  attributes :: "string \<rightharpoonup> pyval"

definition getattribute :: "provider \<Rightarrow> string \<Rightarrow> string \<Rightarrow> pyval option" where
  "getattribute self username item =
     (if item = ''readonly'' then Some (PyBool (username \<notin> set (writers self)))
      else attributes self item)"

section \<open>Search results, in the words of the specification\<close>




section \<open>A sample environment and store\<close>

text \<open>
  Concrete decoders and a small store, on which the theorems below are instantiated.
  The FITS reader accepts the bytes that start with \<open>SIMPLE\<close> (six bytes give an image
  1024 wide, more give 512); in the bytes that start with \<open>PNGFITS\<close> it finds a
  header whose \<open>FILTER\<close> card is not a string. Pillow accepts the bytes that start
  with \<open>PNG\<close>, with an EXIF tag it has no name for in those that start with \<open>PNGx\<close>;
  rawpy accepts nothing. ExifRead finds an exposure in the bytes that start with
  \<open>Exif\<close> and a date that no format parses in those that start with \<open>PNGd\<close>.
\<close>

definition sample_env :: env where
  "sample_env =
     \<lparr>cur_dir = ''/'', have_PIL = True, have_rawpy = True, have_exifread = True,
      pyfits_open = (\<lambda>d. if take 6 d = ''SIMPLE''
                           then Some [[(''NAXIS1'', PyInt (if length d = 6 then 1024 else 512)),
                                       (''NAXIS2'', PyInt 768)]]
                           else if take 7 d = ''PNGFITS''
                           then Some [[(''NAXIS1'', PyInt 7), (''NAXIS2'', PyInt 7),
                                       (''TELESCOP'', PyStr ''T1''), (''FILTER'', PyInt 3)]]
                           else None),
      PIL_open = (\<lambda>d. if take 3 d = ''PNG''
                        then Some \<lparr>format = ''PNG'', bands = [''R'', ''G'', ''B''],
                                   im_size = (1024, 768),
                                   getexif = (if take 4 d = ''PNGx''
                                              then Some [(1, PyInt 1)] else Some [])\<rparr>
                        else None),
      rawpy_imread = (\<lambda>d. None),
      exifread_process_file =
        (\<lambda>d. if take 4 d = ''Exif'' then Some [(''EXIF ExposureTime'', PyInt 2)]
              else if take 4 d = ''PNGd'' then Some [(''Image DateTime'', PyStr ''yesterday'')]
              else Some []),
      ExifTags_TAGS = (\<lambda>k. None),
      convert_exif_field = (\<lambda>v. v),
      strptime = (\<lambda>s fmt. None),
      fromtimestamp = (\<lambda>n. \<lparr>year = 1970, month = 1, day = 1, hour = 0, minute = 0,
                               second = int n, microsecond = 0\<rparr>),
      py_str = (\<lambda>v. case v of PyStr x \<Rightarrow> x | _ \<Rightarrow> []),
      fnmatch_brackets = (\<lambda>n pat. False),
      gzip_read = (\<lambda>d. None),
      bz2_read = (\<lambda>d. None),
      search_unresolved = (\<lambda>fs r pathname types coll w h. Inr [])\<rparr>"

definition sample_store :: fs where
  "sample_store =
     [(''/'', Dir 0), (''/data'', Dir 1),
      (''/data/a.fits'', File ''SIMPLE'' 2),
      (''/data/b.fits'', File ''SIMPLE  '' 3),
      (''/data/c.png'', File ''PNG'' 4),
      (''/data/notes.txt'', File ''Exif only'' 5),
      (''/data/.hidden'', File ''SIMPLE'' 6),
      (''/data/sub'', Dir 7),
      (''/data/sub/d.fits'', File ''SIMPLE'' 8)]"

section \<open>Theorems\<close>

subsection \<open>Facts about the store\<close>

lemma map_of_filter_key:
  "map_of (filter (\<lambda>(k, _). P k) fs) k = (if P k then map_of fs k else None)"
  by (induction fs) auto

lemma below_length: "below d k \<Longrightarrow> length d < length k"
proof -
  assume b: "below d k"
  then have p: "prefix (join d []) k" and n: "k \<noteq> join d []" by (simp_all add: below_def)
  from p n have "length (join d []) < length k"
    by (metis prefix_length_less strict_prefix_def)
  moreover have "length d \<le> length (join d [])" by (simp add: join_def)
  ultimately show ?thesis by linarith
qed

lemma not_below_dirname: "\<not> below f (dirname f)"
  using below_length [of f "dirname f"] length_dirname_le [of f] by auto

lemma dirname_neq: "basename f \<noteq> [] \<Longrightarrow> dirname f \<noteq> f"
  using length_dirname_less [of f] by auto

lemma isdir_exists: "isdir fs f \<Longrightarrow> exists fs f"
  by (auto simp: isdir_def exists_def split: option.splits)

lemma rmtree_dir:
  "isdir fs f \<Longrightarrow> rmtree fs f = (filter (\<lambda>(k, _). k \<noteq> f \<and> \<not> below f k) fs, None)"
  by (auto simp: rmtree_def isdir_def split: option.splits node.splits)

lemma nothing_below_file:
  assumes l: "files_are_leaves fs" and f: "map_of fs f = Some (File data t)" and b: "below f k"
  shows "map_of fs k = None"
proof (rule ccontr)
  assume "map_of fs k \<noteq> None"
  then obtain n where "map_of fs k = Some n" by auto
  then have kin: "(k, n) \<in> set fs" by (rule map_of_SomeD)
  from f have fin: "(f, File data t) \<in> set fs" by (rule map_of_SomeD)
  from l kin have "\<not> list_ex (\<lambda>(f, n). is_file_node n \<and> below f k) fs"
    by (auto simp: files_are_leaves_def list_all_iff)
  with fin b show False by (auto simp: list_ex_iff)
qed

lemma makedirs_parent_exists:
  "exists fs (dirname d) \<Longrightarrow> basename d \<noteq> [] \<Longrightarrow> makedirs now fs d = mkdir now fs d"
  by (subst makedirs.simps) (simp add: Let_def)

subsection \<open>The sandbox\<close>

text \<open>
  Claim C1. Path resolution should return a descendant of the root or raise
  \<open>AssetOutsideRootError\<close>. The test is a prefix test on the characters, so from the
  root \<open>/data\<close> the path \<open>../data2/x\<close> resolves to \<open>/data2/x\<close>, which starts with the
  root's characters and is returned, although it lies in a sibling directory.
\<close>

theorem path_to_filename_sibling_escapes:
  "path_to_filename ''/'' ''/data'' ''../data2/x'' = Inr ''/data2/x''
   \<and> inside_root ''/data'' ''/data2/x'' = False"
  by code_simp

subsection \<open>The FTP provider\<close>

text \<open>
  Claim C3. The parser should read the date 2023-01-15 from the site-code name
  \<open>lm230115\<close> and a time of day from longer names. The branches test the length of
  the whole base name (6, 12, other), so the eight characters of \<open>lm230115\<close> take the
  last branch, whose empty slices are not integers: the result is absent. In the last
  branch the minutes are passed as the base of the hours, so \<open>t1234\<close> reads 12 in base
  34, an hour of 36, and the result is absent again. The directory name \<open>202301\<close> is
  read as the claim says.
\<close>

theorem get_date_site_code_name_absent:
  "get_date ''lm230115'' = None
   \<and> get_date ''bbzqa230115t1234.fits.gz'' = None
   \<and> get_date ''202301'' = mk_datetime 2023 1 1 0 0 0 0"
  by code_simp

text \<open>
  Claim C4. Every outcome other than a collection or a leaf should raise
  \<open>AssetNotFoundError\<close>. When the server refuses the change of directory with
  \<open>error_perm\<close> and the listing is empty, reading its first entry raises
  \<open>IndexError\<close>; and an exception of \<open>cwd\<close> other than \<open>error_perm\<close> is not caught.
\<close>

theorem ftp_collection_empty_listing:
  "ftp_collection \<lparr>cwd = (\<lambda>_. Some error_perm), nlst = (\<lambda>_. Inr [])\<rparr> apath = Inl IndexError
   \<and> ftp_collection \<lparr>cwd = (\<lambda>_. Some error_temp), nlst = (\<lambda>_. Inr [])\<rparr> apath
       = Inl (FtpError error_temp)"
  by (simp add: ftp_collection_def)

subsection \<open>Classification\<close>

lemma imtype_exif_exposure: "imtype (exif_exposure x v) = imtype v"
  by (simp add: exif_exposure_def split: option.splits)

lemma imtype_exif_time_tag: "imtype (exif_time_tag x v) = imtype v"
  by (simp add: exif_time_tag_def split: option.splits)

lemma imtype_exif_parse_time: "imtype (exif_parse_time E v) = imtype v"
  by (simp add: exif_parse_time_def split: option.splits)

lemma imtype_apply_exif: "imtype (apply_exif E x v) = imtype v"
  by (simp add: apply_exif_def imtype_exif_exposure imtype_exif_time_tag imtype_exif_parse_time)

lemma imtype_probe_fits:
  "imtype v = PyNone \<Longrightarrow>
   imtype (probe_fits E data v) = PyNone \<or> imtype (probe_fits E data v) = PyStr ''FITS''"
  by (simp add: probe_fits_def Let_def split: option.splits list.splits obs_time.splits)

lemma imtype_probe_pil:
  "imtype (fst (probe_pil E data v))
   = (case PIL_open E data of None \<Rightarrow> imtype v | Some im \<Rightarrow> PyStr (format im))"
  by (simp add: probe_pil_def Let_def split: option.splits)

lemma imtype_probe_raw:
  "imtype (probe_raw E data v)
   = (case rawpy_imread E data of None \<Rightarrow> imtype v | Some im \<Rightarrow> PyStr (raw_type im))"
  by (simp add: probe_raw_def split: option.splits)

lemma imtype_classify:
  "imtype (classify E data) =
     (if imtype (probe_fits E data no_vars) \<noteq> PyNone then PyStr ''FITS''
      else case (if have_PIL E then PIL_open E data else None) of
             Some im \<Rightarrow> PyStr (format im)
           | None \<Rightarrow>
               (case (if have_rawpy E then rawpy_imread E data else None) of
                  Some im \<Rightarrow> PyStr (raw_type im)
                | None \<Rightarrow> PyNone))"
proof -
  have n: "imtype no_vars = PyNone" by (simp add: no_vars_def)
  show ?thesis
    using imtype_probe_fits [OF n, of E data]
    by (auto simp add: classify_def Let_def imtype_apply_exif imtype_probe_raw
        imtype_probe_pil split_beta split: option.splits)
qed

lemma exif_exposure_fields:
  "exif_exposure x v = v\<lparr>explength := explength (exif_exposure x v)\<rparr>"
  by (simp add: exif_exposure_def split: option.splits)

lemma exif_time_tag_fields:
  "exif_time_tag x v = v\<lparr>exptime := exptime (exif_time_tag x v)\<rparr>"
  by (simp add: exif_time_tag_def split: option.splits)

lemma exif_parse_time_fields:
  "exif_parse_time E v = v\<lparr>exptime := exptime (exif_parse_time E v)\<rparr>"
  by (simp add: exif_parse_time_def split: option.splits)

lemma apply_exif_fields:
  "apply_exif E x v
   = v\<lparr>explength := explength (apply_exif E x v), exptime := exptime (apply_exif E x v)\<rparr>"
proof -
  let ?a = "exif_exposure x v"
  let ?b = "exif_time_tag x ?a"
  let ?c = "exif_parse_time E ?b"
  have a: "?a = v\<lparr>explength := explength ?a\<rparr>" by (rule exif_exposure_fields)
  have b: "?b = ?a\<lparr>exptime := exptime ?b\<rparr>" by (rule exif_time_tag_fields)
  have c: "?c = ?b\<lparr>exptime := exptime ?c\<rparr>" by (rule exif_parse_time_fields)
  have "?c = v\<lparr>explength := explength ?a, exptime := exptime ?c\<rparr>"
    by (subst c, subst b, subst a) simp
  moreover from this have "explength ?c = explength ?a"
    by (metis vars.select_convs(5) vars.surjective vars.update_convs(5) vars.update_convs(6))
  ultimately show ?thesis by (simp add: apply_exif_def)
qed


lemma classify_fits:
  "imtype (probe_fits E data no_vars) \<noteq> PyNone \<Longrightarrow> classify E data = probe_fits E data no_vars"
  by (simp add: classify_def Let_def)

lemma read_exif_untyped: "imtype v = PyNone \<Longrightarrow> read_exif E data v e = e"
  by (simp add: read_exif_def)

lemma classify_none:
  assumes n: "imtype (probe_fits E data no_vars) = PyNone"
    and p: "have_PIL E \<longrightarrow> PIL_open E data = None"
    and r: "have_rawpy E \<longrightarrow> rawpy_imread E data = None"
  shows "classify E data = probe_fits E data no_vars"
proof -
  let ?v = "probe_fits E data no_vars"
  have a: "(if have_PIL E then probe_pil E data ?v else (?v, None)) = (?v, None)"
    using p by (simp add: probe_pil_def)
  have b: "(if imtype ?v = PyNone \<and> have_rawpy E then probe_raw E data ?v else ?v) = ?v"
    using r by (simp add: probe_raw_def)
  show ?thesis
    unfolding classify_def Let_def a prod.case b using n by (simp add: read_exif_untyped)
qed

lemma keep_exif_fields:
  "(case e of None \<Rightarrow> v | Some x \<Rightarrow> apply_exif E x v)
   = v\<lparr>explength := explength (case e of None \<Rightarrow> v | Some x \<Rightarrow> apply_exif E x v),
        exptime := exptime (case e of None \<Rightarrow> v | Some x \<Rightarrow> apply_exif E x v)\<rparr>"
proof (cases e)
  case None
  then show ?thesis by simp
next
  case (Some x)
  then show ?thesis using apply_exif_fields [of E x v] by simp
qed

lemma fst_probe_pil:
  "PIL_open E data = Some im \<Longrightarrow>
   fst (probe_pil E data v)
   = v\<lparr>imtype := PyStr (format im), layers := PyInt (int (length (bands im))),
        flt := PyStr (join_char CHR '','' (bands im)),
        imwidth := PyInt (fst (im_size im)), imheight := PyInt (snd (im_size im))\<rparr>"
  by (simp add: probe_pil_def Let_def split: option.splits)

lemma classify_pil:
  assumes n: "imtype (probe_fits E data no_vars) = PyNone"
    and h: "have_PIL E" and o: "PIL_open E data = Some im"
    and w: "w = (probe_fits E data no_vars)
                  \<lparr>imtype := PyStr (format im),
                   layers := PyInt (int (length (bands im))),
                   flt := PyStr (join_char CHR '','' (bands im)),
                   imwidth := PyInt (fst (im_size im)),
                   imheight := PyInt (snd (im_size im))\<rparr>"
  shows "classify E data
         = (case read_exif E data w (snd (probe_pil E data (probe_fits E data no_vars))) of
              None \<Rightarrow> w
            | Some x \<Rightarrow> apply_exif E x w)"
proof -
  let ?v = "probe_fits E data no_vars"
  let ?e = "snd (probe_pil E data ?v)"
  have a: "(if have_PIL E then probe_pil E data ?v else (?v, None)) = (w, ?e)"
    using h fst_probe_pil [OF o, where v = ?v] w by (cases "probe_pil E data ?v") simp
  have b: "(if imtype w = PyNone \<and> have_rawpy E then probe_raw E data w else w) = w"
    by (simp add: w)
  show ?thesis
    unfolding classify_def Let_def a prod.case b using n h by simp
qed

lemma classify_raw:
  assumes n: "imtype (probe_fits E data no_vars) = PyNone"
    and p: "have_PIL E \<longrightarrow> PIL_open E data = None"
    and h: "have_rawpy E" and o: "rawpy_imread E data = Some im"
    and w: "w = (probe_fits E data no_vars)
                  \<lparr>imtype := PyStr (raw_type im),
                   layers := PyInt (num_colors im),
                   flt := PyStr (join_char CHR '','' (map (\<lambda>b. [b]) (color_desc im))),
                   imwidth := PyInt (sizes_width im),
                   imheight := PyInt (sizes_height im)\<rparr>"
  shows "classify E data
         = (case read_exif E data w None of None \<Rightarrow> w | Some x \<Rightarrow> apply_exif E x w)"
proof -
  let ?v = "probe_fits E data no_vars"
  have a: "(if have_PIL E then probe_pil E data ?v else (?v, None)) = (?v, None)"
    using p by (simp add: probe_pil_def)
  have b: "(if imtype ?v = PyNone \<and> have_rawpy E then probe_raw E data ?v else ?v) = w"
    using n h o by (simp add: probe_raw_def w)
  show ?thesis
    unfolding classify_def Let_def a prod.case b using n h by simp
qed

lemma probe_fits_type:
  "imtype (probe_fits E data no_vars) \<noteq> PyNone
   \<Longrightarrow> imtype (probe_fits E data no_vars) = PyStr ''FITS''"
  using imtype_probe_fits [where v = no_vars and E = E and data = data] by (auto simp add: no_vars_def)

lemma probe_fits_unread: "pyfits_open E data = None \<Longrightarrow> probe_fits E data v = v"
  by (simp add: probe_fits_def)

lemma classify_cases:
  "classify E data =
     (if imtype (probe_fits E data no_vars) \<noteq> PyNone then probe_fits E data no_vars
      else case (if have_PIL E then PIL_open E data else None) of
             Some im \<Rightarrow>
               (case read_exif E data
                       ((probe_fits E data no_vars)
                          \<lparr>imtype := PyStr (format im),
                           layers := PyInt (int (length (bands im))),
                           flt := PyStr (join_char CHR '','' (bands im)),
                           imwidth := PyInt (fst (im_size im)),
                           imheight := PyInt (snd (im_size im))\<rparr>)
                       (snd (probe_pil E data (probe_fits E data no_vars))) of
                  None \<Rightarrow>
                    (probe_fits E data no_vars)
                      \<lparr>imtype := PyStr (format im),
                       layers := PyInt (int (length (bands im))),
                       flt := PyStr (join_char CHR '','' (bands im)),
                       imwidth := PyInt (fst (im_size im)),
                       imheight := PyInt (snd (im_size im))\<rparr>
                | Some x \<Rightarrow>
                    apply_exif E x
                      ((probe_fits E data no_vars)
                         \<lparr>imtype := PyStr (format im),
                          layers := PyInt (int (length (bands im))),
                          flt := PyStr (join_char CHR '','' (bands im)),
                          imwidth := PyInt (fst (im_size im)),
                          imheight := PyInt (snd (im_size im))\<rparr>))
           | None \<Rightarrow>
               (case (if have_rawpy E then rawpy_imread E data else None) of
                  Some im \<Rightarrow>
                    (case read_exif E data
                            ((probe_fits E data no_vars)
                               \<lparr>imtype := PyStr (raw_type im),
                                layers := PyInt (num_colors im),
                                flt := PyStr (join_char CHR '','' (map (\<lambda>b. [b]) (color_desc im))),
                                imwidth := PyInt (sizes_width im),
                                imheight := PyInt (sizes_height im)\<rparr>)
                            None of
                       None \<Rightarrow>
                         (probe_fits E data no_vars)
                           \<lparr>imtype := PyStr (raw_type im),
                            layers := PyInt (num_colors im),
                            flt := PyStr (join_char CHR '','' (map (\<lambda>b. [b]) (color_desc im))),
                            imwidth := PyInt (sizes_width im),
                            imheight := PyInt (sizes_height im)\<rparr>
                     | Some x \<Rightarrow>
                         apply_exif E x
                           ((probe_fits E data no_vars)
                              \<lparr>imtype := PyStr (raw_type im),
                               layers := PyInt (num_colors im),
                               flt := PyStr (join_char CHR '','' (map (\<lambda>b. [b]) (color_desc im))),
                               imwidth := PyInt (sizes_width im),
                               imheight := PyInt (sizes_height im)\<rparr>))
                | None \<Rightarrow> probe_fits E data no_vars))"
proof (cases "imtype (probe_fits E data no_vars) \<noteq> PyNone")
  case True
  then show ?thesis by (simp add: classify_fits)
next
  case n: False
  show ?thesis
  proof (cases "if have_PIL E then PIL_open E data else None")
    case (Some im)
    then have h: "have_PIL E" and o: "PIL_open E data = Some im"
      by (simp_all split: if_splits)
    show ?thesis
      using n classify_pil [OF _ h o refl] Some by simp
  next
    case p: None
    then have p': "have_PIL E \<longrightarrow> PIL_open E data = None" by (simp split: if_splits)
    show ?thesis
    proof (cases "if have_rawpy E then rawpy_imread E data else None")
      case (Some im)
      then have h: "have_rawpy E" and o: "rawpy_imread E data = Some im"
        by (simp_all split: if_splits)
      show ?thesis
        using n classify_raw [OF _ p' h o refl] p Some by simp
    next
      case None
      then have r': "have_rawpy E \<longrightarrow> rawpy_imread E data = None" by (simp split: if_splits)
      show ?thesis
        using n classify_none [OF _ p' r'] p None by simp
    qed
  qed
qed

lemma get_asset'_file:
  assumes f: "map_of fs filename = Some (File data mtime)"
    and r: "get_asset' E fs apath filename = Inr a"
  shows "name a = basename filename \<and> \<not> collection a
         \<and> metadata a
           = [(''type'', imtype (classify E data)), (''size'', PyInt (int (length data))),
              (''time'', PyStr (case exptime (classify E data) of
                                  PyDatetime t \<Rightarrow> isoformat t
                                | _ \<Rightarrow> isoformat (fromtimestamp E mtime))),
              (''layers'', layers (classify E data)),
              (''width'', imwidth (classify E data)), (''height'', imheight (classify E data))]
             @ optional_item ''exposure'' (explength (classify E data))
             @ optional_item ''telescope'' (telescope (classify E data))
             @ optional_item ''filter'' (flt (classify E data))"
proof (cases "imtype (classify E data) = PyNone")
  case True
  then show ?thesis using f r by (simp add: get_asset'_def Let_def)
next
  case False
  then show ?thesis using f r
    by (cases "exptime (classify E data)") (auto simp add: get_asset'_def Let_def)
qed

lemma get_asset'_untyped:
  "map_of fs filename = Some (File data mtime) \<Longrightarrow> imtype (classify E data) = PyNone
   \<Longrightarrow> get_asset' E fs apath filename = Inl UnrecognizedDataFormatError"
  by (simp add: get_asset'_def Let_def)


lemma get_asset'_typed:
  assumes f: "map_of fs filename = Some (File data mtime)"
    and i: "imtype (classify E data) \<noteq> PyNone"
    and x: "case exptime (classify E data) of PyNone \<Rightarrow> True | PyDatetime _ \<Rightarrow> True | _ \<Rightarrow> False"
  shows "\<exists>a. get_asset' E fs apath filename = Inr a"
  using f i x by (cases "exptime (classify E data)") (simp_all add: get_asset'_def Let_def)

text \<open>
  Claim C2, as the code has it. The probes run in the order FITS, Pillow, rawpy. A
  FITS probe that sets the type gives the whole record. Otherwise the first of Pillow
  and rawpy that opens the file gives the type, layers, filter, width and height, on
  top of what the FITS probe assigned before it raised (nothing when the FITS reader
  could not open the file); the EXIF dictionary is read only then, and changes only the
  exposure and the time. When none of the three sets a type the file is unrecognized,
  whatever its EXIF data. The metadata of the asset are these variables.
\<close>

theorem classify_order:
  assumes "map_of fs filename = Some (File data mtime)"
  shows "classify E data =
           (if imtype (probe_fits E data no_vars) \<noteq> PyNone then probe_fits E data no_vars
            else case (if have_PIL E then PIL_open E data else None) of
                   Some im \<Rightarrow>
                     (case read_exif E data
                             ((probe_fits E data no_vars)
                                \<lparr>imtype := PyStr (format im),
                                 layers := PyInt (int (length (bands im))),
                                 flt := PyStr (join_char CHR '','' (bands im)),
                                 imwidth := PyInt (fst (im_size im)),
                                 imheight := PyInt (snd (im_size im))\<rparr>)
                             (snd (probe_pil E data (probe_fits E data no_vars))) of
                        None \<Rightarrow>
                          (probe_fits E data no_vars)
                            \<lparr>imtype := PyStr (format im),
                             layers := PyInt (int (length (bands im))),
                             flt := PyStr (join_char CHR '','' (bands im)),
                             imwidth := PyInt (fst (im_size im)),
                             imheight := PyInt (snd (im_size im))\<rparr>
                      | Some x \<Rightarrow>
                          apply_exif E x
                            ((probe_fits E data no_vars)
                               \<lparr>imtype := PyStr (format im),
                                layers := PyInt (int (length (bands im))),
                                flt := PyStr (join_char CHR '','' (bands im)),
                                imwidth := PyInt (fst (im_size im)),
                                imheight := PyInt (snd (im_size im))\<rparr>))
                 | None \<Rightarrow>
                     (case (if have_rawpy E then rawpy_imread E data else None) of
                        Some im \<Rightarrow>
                          (case read_exif E data
                                  ((probe_fits E data no_vars)
                                     \<lparr>imtype := PyStr (raw_type im),
                                      layers := PyInt (num_colors im),
                                      flt := PyStr (join_char CHR '',''
                                                      (map (\<lambda>b. [b]) (color_desc im))),
                                      imwidth := PyInt (sizes_width im),
                                      imheight := PyInt (sizes_height im)\<rparr>)
                                  None of
                             None \<Rightarrow>
                               (probe_fits E data no_vars)
                                 \<lparr>imtype := PyStr (raw_type im),
                                  layers := PyInt (num_colors im),
                                  flt := PyStr (join_char CHR '',''
                                                  (map (\<lambda>b. [b]) (color_desc im))),
                                  imwidth := PyInt (sizes_width im),
                                  imheight := PyInt (sizes_height im)\<rparr>
                           | Some x \<Rightarrow>
                               apply_exif E x
                                 ((probe_fits E data no_vars)
                                    \<lparr>imtype := PyStr (raw_type im),
                                     layers := PyInt (num_colors im),
                                     flt := PyStr (join_char CHR '',''
                                                     (map (\<lambda>b. [b]) (color_desc im))),
                                     imwidth := PyInt (sizes_width im),
                                     imheight := PyInt (sizes_height im)\<rparr>))
                      | None \<Rightarrow> probe_fits E data no_vars))
         \<and> (imtype (probe_fits E data no_vars) \<noteq> PyNone \<longrightarrow>
              imtype (probe_fits E data no_vars) = PyStr ''FITS'')
         \<and> (pyfits_open E data = None \<longrightarrow> probe_fits E data no_vars = no_vars)
         \<and> (\<forall>x v. apply_exif E x v
                    = v\<lparr>explength := explength (apply_exif E x v),
                         exptime := exptime (apply_exif E x v)\<rparr>)
         \<and> (\<forall>v e. imtype v = PyNone \<longrightarrow> read_exif E data v e = e)
         \<and> (imtype (classify E data) = PyNone \<longrightarrow>
              get_asset' E fs apath filename = Inl UnrecognizedDataFormatError)
         \<and> (imtype (classify E data) \<noteq> PyNone \<longrightarrow>
              (case exptime (classify E data) of
                 PyNone \<Rightarrow> True | PyDatetime _ \<Rightarrow> True | _ \<Rightarrow> False) \<longrightarrow>
              (\<exists>a. get_asset' E fs apath filename = Inr a))
         \<and> (\<forall>a. get_asset' E fs apath filename = Inr a \<longrightarrow>
              name a = basename filename \<and> \<not> collection a
              \<and> metadata a
                = [(''type'', imtype (classify E data)), (''size'', PyInt (int (length data))),
                   (''time'', PyStr (case exptime (classify E data) of
                                       PyDatetime t \<Rightarrow> isoformat t
                                     | _ \<Rightarrow> isoformat (fromtimestamp E mtime))),
                   (''layers'', layers (classify E data)),
                   (''width'', imwidth (classify E data)),
                   (''height'', imheight (classify E data))]
                  @ optional_item ''exposure'' (explength (classify E data))
                  @ optional_item ''telescope'' (telescope (classify E data))
                  @ optional_item ''filter'' (flt (classify E data)))"
proof (intro conjI allI impI)
  fix a
  assume r: "get_asset' E fs apath filename = Inr a"
  show "name a = basename filename"
    using get_asset'_file [OF assms r] by (rule conjunct1)
  show "\<not> collection a"
    using get_asset'_file [OF assms r] by simp
  show "metadata a
        = [(''type'', imtype (classify E data)), (''size'', PyInt (int (length data))),
           (''time'', PyStr (case exptime (classify E data) of
                               PyDatetime t \<Rightarrow> isoformat t
                             | _ \<Rightarrow> isoformat (fromtimestamp E mtime))),
           (''layers'', layers (classify E data)),
           (''width'', imwidth (classify E data)),
           (''height'', imheight (classify E data))]
          @ optional_item ''exposure'' (explength (classify E data))
          @ optional_item ''telescope'' (telescope (classify E data))
          @ optional_item ''filter'' (flt (classify E data))"
    using get_asset'_file [OF assms r] by simp
next
  assume "imtype (classify E data) = PyNone"
  then show "get_asset' E fs apath filename = Inl UnrecognizedDataFormatError"
    by (rule get_asset'_untyped [OF assms])
next
  assume "imtype (classify E data) \<noteq> PyNone"
    and "case exptime (classify E data) of
           PyNone \<Rightarrow> True | PyDatetime _ \<Rightarrow> True | _ \<Rightarrow> False"
  then show "\<exists>a. get_asset' E fs apath filename = Inr a"
    by (rule get_asset'_typed [OF assms])
next
  assume "imtype (probe_fits E data no_vars) \<noteq> PyNone"
  then show "imtype (probe_fits E data no_vars) = PyStr ''FITS''"
    by (rule probe_fits_type)
next
  assume "pyfits_open E data = None"
  then show "probe_fits E data no_vars = no_vars"
    by (rule probe_fits_unread)
next
  fix x v
  show "apply_exif E x v
        = v\<lparr>explength := explength (apply_exif E x v), exptime := exptime (apply_exif E x v)\<rparr>"
    by (rule apply_exif_fields)
next
  fix v :: vars and e
  assume "imtype v = PyNone"
  then show "read_exif E data v e = e"
    by (rule read_exif_untyped)
qed (rule classify_cases)

theorem classify_order_witness:
  "map_of sample_store ''/data/c.png'' = Some (File ''PNG'' 4)
   \<and> classify sample_env ''PNG''
     = no_vars\<lparr>imtype := PyStr ''PNG'', layers := PyInt 3, flt := PyStr ''R,G,B'',
               imwidth := PyInt 1024, imheight := PyInt 768\<rparr>
   \<and> (\<exists>a. get_asset' sample_env sample_store ''c.png'' ''/data/c.png'' = Inr a)
   \<and> map_of sample_store ''/data/a.fits'' = Some (File ''SIMPLE'' 2)
   \<and> classify sample_env ''SIMPLE'' = probe_fits sample_env ''SIMPLE'' no_vars
   \<and> map_of sample_store ''/data/notes.txt'' = Some (File ''Exif only'' 5)
   \<and> classify sample_env ''Exif only'' = no_vars
   \<and> get_asset' sample_env sample_store ''notes.txt'' ''/data/notes.txt''
       = Inl UnrecognizedDataFormatError"
proof -
  have a: "map_of sample_store ''/data/c.png'' = Some (File ''PNG'' 4)" by code_simp
  have b: "map_of sample_store ''/data/notes.txt'' = Some (File ''Exif only'' 5)" by code_simp
  have s: "map_of sample_store ''/data/a.fits'' = Some (File ''SIMPLE'' 2)" by code_simp
  have c: "probe_fits sample_env ''PNG'' no_vars = no_vars" by code_simp
  have c': "imtype no_vars = PyNone" by code_simp
  have d: "PIL_open sample_env ''PNG''
            = Some \<lparr>format = ''PNG'', bands = [''R'', ''G'', ''B''], im_size = (1024, 768),
                    getexif = Some []\<rparr>"
    by code_simp
  have e: "have_PIL sample_env" by code_simp
  have j: "join_char CHR '','' [''R'', ''G'', ''B''] = ''R,G,B''" by code_simp
  have g: "read_exif sample_env ''PNG'' w x = Some Map.empty" if "imtype w \<noteq> PyNone" for w x
    using that by (simp add: read_exif_def sample_env_def dict_of_def)
  have h: "apply_exif sample_env Map.empty w = w" for w
    by (simp add: apply_exif_def exif_exposure_def exif_time_tag_def exif_parse_time_def
        sample_env_def)
  have k: "probe_fits sample_env ''Exif only'' no_vars = no_vars" by code_simp
  have l: "PIL_open sample_env ''Exif only'' = None" by code_simp
  have m: "rawpy_imread sample_env ''Exif only'' = None" by code_simp
  have n: "imtype (probe_fits sample_env ''SIMPLE'' no_vars) \<noteq> PyNone" by code_simp
  have x: "exptime no_vars = PyNone" by code_simp
  note png = classify_order [OF a, of sample_env "''c.png''"]
  have r1: "classify sample_env ''PNG''
           = no_vars\<lparr>imtype := PyStr ''PNG'', layers := PyInt 3, flt := PyStr ''R,G,B'',
                     imwidth := PyInt 1024, imheight := PyInt 768\<rparr>"
    using png [THEN conjunct1] by (simp add: c c' d e j g h)
  have r2: "\<exists>a. get_asset' sample_env sample_store ''c.png'' ''/data/c.png'' = Inr a"
    using png by (simp add: r1 x)
  have r3: "classify sample_env ''SIMPLE'' = probe_fits sample_env ''SIMPLE'' no_vars"
    using classify_order [OF s, of sample_env, THEN conjunct1] n by simp
  note nt = classify_order [OF b, of sample_env "''notes.txt''"]
  have r4: "classify sample_env ''Exif only'' = no_vars"
    using nt [THEN conjunct1] by (simp add: k c' l m)
  have r5: "get_asset' sample_env sample_store ''notes.txt'' ''/data/notes.txt''
          = Inl UnrecognizedDataFormatError"
    using nt by (simp add: r4 c')
  show ?thesis using a b s r1 r2 r3 r4 r5 by simp
qed

text \<open>
  Claim C2 as stated fails. The file \<open>notes.txt\<close> holds EXIF data that ExifRead
  reads, and none of the richer probes accepts it; there is no EXIF-only fallback,
  and the file is unrecognized. A Pillow probe that raises while it builds its EXIF
  dictionary has set the type already, and the file is a PNG image. A FITS probe that
  raises at the \<open>FILTER\<close> cards has read the telescope already, and the record of the
  image Pillow then recognizes carries it.
\<close>

theorem exif_only_file_unrecognized:
  "exifread_process_file sample_env ''Exif only'' = Some [(''EXIF ExposureTime'', PyInt 2)]
   \<and> get_asset sample_env sample_store ''/data'' ''notes.txt'' = Inl UnrecognizedDataFormatError
   \<and> PIL_open sample_env ''PNGx''
     = Some \<lparr>format = ''PNG'', bands = [''R'', ''G'', ''B''], im_size = (1024, 768),
             getexif = Some [(1, PyInt 1)]\<rparr>
   \<and> pil_exif_items sample_env [(1, PyInt 1)] = None
   \<and> imtype (classify sample_env ''PNGx'') = PyStr ''PNG''
   \<and> imtype (probe_fits sample_env ''PNGFITS'' no_vars) = PyNone
   \<and> imtype (classify sample_env ''PNGFITS'') = PyStr ''PNG''
   \<and> telescope (classify sample_env ''PNGFITS'') = PyStr ''T1''"
  by code_simp

subsection \<open>Updating an asset\<close>

lemma update_missing:
  "path_to_filename (cur_dir E) abs_root apath = Inr filename \<Longrightarrow> \<not> exists fs filename \<Longrightarrow>
   update_asset E now fs abs_root apath data force = (fs, Inl AssetNotFoundError)"
  by (simp add: update_asset_def)

lemma update_collection_unforced:
  "path_to_filename (cur_dir E) abs_root apath = Inr filename \<Longrightarrow> isdir fs filename \<Longrightarrow>
   update_asset E now fs abs_root apath data False = (fs, Inl CannotUpdateCollectionAssetError)"
  by (simp add: update_asset_def isdir_exists)

lemma update_forced_data:
  assumes r: "path_to_filename (cur_dir E) abs_root apath = Inr filename"
    and d: "isdir fs filename"
    and p: "isdir fs (dirname filename)"
    and b: "basename filename \<noteq> []"
  shows "\<exists>fs'. update_asset E now fs abs_root apath (Some payload) True
               = (fs', get_asset' E fs' apath filename)
          \<and> map_of fs' filename = Some (File payload now)
          \<and> (\<forall>k. below filename k \<longrightarrow> map_of fs' k = None)
          \<and> (\<forall>k. k \<noteq> filename \<and> \<not> below filename k \<longrightarrow> map_of fs' k = map_of fs k)"
proof -
  let ?fs1 = "filter (\<lambda>(k, _). k \<noteq> filename \<and> \<not> below filename k) fs"
  let ?fs2 = "AList.update filename (File payload now) ?fs1"
  have m1: "map_of ?fs1 k = (if k \<noteq> filename \<and> \<not> below filename k then map_of fs k else None)" for k
    by (rule map_of_filter_key)
  have par: "map_of ?fs1 (dirname filename) = map_of fs (dirname filename)"
    using m1 [of "dirname filename"] dirname_neq [OF b] not_below_dirname [of filename] by simp
  from p obtain t where pt: "map_of fs (dirname filename) = Some (Dir t)"
    by (auto simp: isdir_def split: option.splits node.splits)
  have w: "write_file now ?fs1 filename payload = (?fs2, None)"
    using m1 [of filename] par pt by (simp add: write_file_def)
  have u: "update_asset E now fs abs_root apath (Some payload) True
             = (?fs2, get_asset' E ?fs2 apath filename)"
    using r d w by (simp add: update_asset_def isdir_exists rmtree_dir)
  have m2: "map_of ?fs2 k = (if k = filename then Some (File payload now) else map_of ?fs1 k)" for k
    by (simp add: update_conv')
  show ?thesis
    using u m2 m1 below_length [of filename filename] by (intro exI [of _ ?fs2]) auto
qed

lemma update_no_data:
  assumes r: "path_to_filename (cur_dir E) abs_root apath = Inr filename"
    and e: "exists fs filename"
    and fo: "isdir fs filename \<longrightarrow> force"
    and p: "isdir fs (dirname filename)"
    and b: "basename filename \<noteq> []"
    and l: "files_are_leaves fs"
  shows "\<exists>fs' a. update_asset E now fs abs_root apath None force = (fs', Inr a)
          \<and> collection a
          \<and> map_of fs' filename = Some (Dir now)
          \<and> (\<forall>k. below filename k \<longrightarrow> map_of fs' k = None)"
proof -
  from p obtain t where pt: "map_of fs (dirname filename) = Some (Dir t)"
    by (auto simp: isdir_def split: option.splits node.splits)
  have dn: "dirname filename \<noteq> filename" by (rule dirname_neq [OF b])
  have nb: "\<not> below filename (dirname filename)" by (rule not_below_dirname)
  show ?thesis
  proof (cases "isdir fs filename")
    case True
    let ?fs1 = "filter (\<lambda>(k, _). k \<noteq> filename \<and> \<not> below filename k) fs"
    let ?fs2 = "AList.update filename (Dir now) ?fs1"
    have m1: "map_of ?fs1 k = (if k \<noteq> filename \<and> \<not> below filename k then map_of fs k else None)" for k
      by (rule map_of_filter_key)
    have ex1: "\<not> exists ?fs1 filename" using m1 [of filename] by (simp add: exists_def)
    have par: "map_of ?fs1 (dirname filename) = Some (Dir t)"
      using m1 [of "dirname filename"] dn nb pt by simp
    then have pex: "exists ?fs1 (dirname filename)" by (simp add: exists_def)
    have mk: "makedirs now ?fs1 filename = (?fs2, None)"
      using makedirs_parent_exists [OF pex b, of now] ex1 par by (simp add: mkdir_def)
    have m2: "map_of ?fs2 k = (if k = filename then Some (Dir now) else map_of ?fs1 k)" for k
      by (simp add: update_conv')
    have u: "update_asset E now fs abs_root apath None force
               = (?fs2, get_asset' E ?fs2 apath filename)"
      using r e True fo mk ex1 by (simp add: update_asset_def rmtree_dir)
    have g: "\<exists>a. get_asset' E ?fs2 apath filename = Inr a \<and> collection a"
      using m2 [of filename] by (simp add: get_asset'_def Let_def)
    show ?thesis
      using u g m2 m1 below_length [of filename filename] by auto
  next
    case False
    with e obtain data t' where ft: "map_of fs filename = Some (File data t')"
      by (auto simp: isdir_def exists_def split: option.splits node.splits)
    let ?fs1 = "AList.delete filename fs"
    let ?fs2 = "AList.update filename (Dir now) ?fs1"
    have m1: "map_of ?fs1 k = (if k = filename then None else map_of fs k)" for k
      by (simp add: delete_conv')
    have ex1: "\<not> exists ?fs1 filename" using m1 [of filename] by (simp add: exists_def)
    have par: "map_of ?fs1 (dirname filename) = Some (Dir t)"
      using m1 [of "dirname filename"] dn pt by simp
    then have pex: "exists ?fs1 (dirname filename)" by (simp add: exists_def)
    have mk: "makedirs now ?fs1 filename = (?fs2, None)"
      using makedirs_parent_exists [OF pex b, of now] ex1 par by (simp add: mkdir_def)
    have m2: "map_of ?fs2 k = (if k = filename then Some (Dir now) else map_of ?fs1 k)" for k
      by (simp add: update_conv')
    have un: "unlink fs filename = (?fs1, None)" using ft by (simp add: unlink_def)
    have u: "update_asset E now fs abs_root apath None force
               = (?fs2, get_asset' E ?fs2 apath filename)"
      using r e False mk un by (simp add: update_asset_def)
    have g: "\<exists>a. get_asset' E ?fs2 apath filename = Inr a \<and> collection a"
      using m2 [of filename] by (simp add: get_asset'_def Let_def)
    have below_none: "map_of ?fs2 k = None" if "below filename k" for k
      using that m2 [of k] m1 [of k] nothing_below_file [OF l ft that] below_length [of filename k]
      by auto
    show ?thesis
      using u g m2 [of filename] below_none by auto
  qed
qed

text \<open>
  Claim C6. For a path that resolves to \<open>filename\<close>: a missing path raises
  \<open>AssetNotFoundError\<close>; a collection without \<open>force\<close> raises
  \<open>CannotUpdateCollectionAssetError\<close> and the store is unchanged; a collection with
  \<open>force\<close> and data loses every entry below it before the data is written at its
  path, and no other entry changes; without data an existing path becomes an empty
  collection. The last two cases are about a path other than the top of the file
  system, whose parent is a directory.
\<close>

theorem update_asset_cases:
  assumes "path_to_filename (cur_dir E) abs_root apath = Inr filename"
  shows "(\<not> exists fs filename \<longrightarrow>
            update_asset E now fs abs_root apath data force = (fs, Inl AssetNotFoundError))
       \<and> (isdir fs filename \<longrightarrow>
            update_asset E now fs abs_root apath data False
              = (fs, Inl CannotUpdateCollectionAssetError))
       \<and> (isdir fs filename \<and> isdir fs (dirname filename) \<and> basename filename \<noteq> [] \<longrightarrow>
            (\<exists>fs'. update_asset E now fs abs_root apath (Some payload) True
                     = (fs', get_asset' E fs' apath filename)
                \<and> map_of fs' filename = Some (File payload now)
                \<and> (\<forall>k. below filename k \<longrightarrow> map_of fs' k = None)
                \<and> (\<forall>k. k \<noteq> filename \<and> \<not> below filename k \<longrightarrow> map_of fs' k = map_of fs k)))
       \<and> (exists fs filename \<and> (isdir fs filename \<longrightarrow> force) \<and> isdir fs (dirname filename)
            \<and> basename filename \<noteq> [] \<and> files_are_leaves fs \<longrightarrow>
            (\<exists>fs' a. update_asset E now fs abs_root apath None force = (fs', Inr a)
                \<and> collection a
                \<and> map_of fs' filename = Some (Dir now)
                \<and> (\<forall>k. below filename k \<longrightarrow> map_of fs' k = None)))"
proof (intro conjI impI)
  assume "\<not> exists fs filename"
  with assms show "update_asset E now fs abs_root apath data force = (fs, Inl AssetNotFoundError)"
    by (rule update_missing)
next
  assume "isdir fs filename"
  with assms show "update_asset E now fs abs_root apath data False
                     = (fs, Inl CannotUpdateCollectionAssetError)"
    by (rule update_collection_unforced)
next
  assume "isdir fs filename \<and> isdir fs (dirname filename) \<and> basename filename \<noteq> []"
  with assms show "\<exists>fs'. update_asset E now fs abs_root apath (Some payload) True
                     = (fs', get_asset' E fs' apath filename)
                \<and> map_of fs' filename = Some (File payload now)
                \<and> (\<forall>k. below filename k \<longrightarrow> map_of fs' k = None)
                \<and> (\<forall>k. k \<noteq> filename \<and> \<not> below filename k \<longrightarrow> map_of fs' k = map_of fs k)"
    using update_forced_data [of E abs_root apath filename fs now payload] by blast
next
  assume "exists fs filename \<and> (isdir fs filename \<longrightarrow> force) \<and> isdir fs (dirname filename)
            \<and> basename filename \<noteq> [] \<and> files_are_leaves fs"
  with assms show "\<exists>fs' a. update_asset E now fs abs_root apath None force = (fs', Inr a)
                \<and> collection a
                \<and> map_of fs' filename = Some (Dir now)
                \<and> (\<forall>k. below filename k \<longrightarrow> map_of fs' k = None)"
    using update_no_data [of E abs_root apath filename fs force now] by blast
qed

theorem update_asset_cases_witness:
  "path_to_filename (cur_dir sample_env) ''/data'' ''sub'' = Inr ''/data/sub''
   \<and> isdir sample_store ''/data/sub''
   \<and> update_asset sample_env 9 sample_store ''/data'' ''sub'' (Some ''SIMPLE'') False
       = (sample_store, Inl CannotUpdateCollectionAssetError)
   \<and> (\<exists>fs'. fst (update_asset sample_env 9 sample_store ''/data'' ''sub'' (Some ''SIMPLE'') True) = fs'
         \<and> map_of fs' ''/data/sub'' = Some (File ''SIMPLE'' 9)
         \<and> map_of fs' ''/data/sub/d.fits'' = None
         \<and> map_of fs' ''/data/a.fits'' = Some (File ''SIMPLE'' 2))
   \<and> (\<exists>fs' a. update_asset sample_env 9 sample_store ''/data'' ''sub'' None True = (fs', Inr a)
         \<and> collection a \<and> map_of fs' ''/data/sub'' = Some (Dir 9)
         \<and> map_of fs' ''/data/sub/d.fits'' = None)"
proof -
  have r: "path_to_filename (cur_dir sample_env) ''/data'' ''sub'' = Inr ''/data/sub''"
    by code_simp
  have d: "isdir sample_store ''/data/sub''" by code_simp
  have e: "exists sample_store ''/data/sub''" by code_simp
  have p: "isdir sample_store (dirname ''/data/sub'')" by code_simp
  have b: "basename ''/data/sub'' \<noteq> []" by code_simp
  have l: "files_are_leaves sample_store" by code_simp
  have k1: "below ''/data/sub'' ''/data/sub/d.fits''" by code_simp
  have k2: "''/data/a.fits'' \<noteq> ''/data/sub'' \<and> \<not> below ''/data/sub'' ''/data/a.fits''"
    by code_simp
  have k3: "map_of sample_store ''/data/a.fits'' = Some (File ''SIMPLE'' 2)" by code_simp
  note t = update_asset_cases [OF r, of sample_store 9 "Some ''SIMPLE''" True "''SIMPLE''"]
  from t d have c2: "update_asset sample_env 9 sample_store ''/data'' ''sub'' (Some ''SIMPLE'') False
       = (sample_store, Inl CannotUpdateCollectionAssetError)" by blast
  from t d p b obtain fs' where
    "update_asset sample_env 9 sample_store ''/data'' ''sub'' (Some ''SIMPLE'') True
       = (fs', get_asset' sample_env fs' ''sub'' ''/data/sub'')"
    and "map_of fs' ''/data/sub'' = Some (File ''SIMPLE'' 9)"
    and "\<forall>k. below ''/data/sub'' k \<longrightarrow> map_of fs' k = None"
    and "\<forall>k. k \<noteq> ''/data/sub'' \<and> \<not> below ''/data/sub'' k \<longrightarrow> map_of fs' k = map_of sample_store k"
    by blast
  with k1 k2 k3 have c3: "\<exists>fs'. fst (update_asset sample_env 9 sample_store ''/data'' ''sub'' (Some ''SIMPLE'') True) = fs'
         \<and> map_of fs' ''/data/sub'' = Some (File ''SIMPLE'' 9)
         \<and> map_of fs' ''/data/sub/d.fits'' = None
         \<and> map_of fs' ''/data/a.fits'' = Some (File ''SIMPLE'' 2)"
    by auto
  from t d e p b l obtain fs'' a where
    "update_asset sample_env 9 sample_store ''/data'' ''sub'' None True = (fs'', Inr a)"
    and "collection a" and "map_of fs'' ''/data/sub'' = Some (Dir 9)"
    and "\<forall>k. below ''/data/sub'' k \<longrightarrow> map_of fs'' k = None"
    by blast
  with k1 have c4: "\<exists>fs' a. update_asset sample_env 9 sample_store ''/data'' ''sub'' None True = (fs', Inr a)
         \<and> collection a \<and> map_of fs' ''/data/sub'' = Some (Dir 9)
         \<and> map_of fs' ''/data/sub/d.fits'' = None"
    by blast
  from r d c2 c3 c4 show ?thesis by blast
qed

subsection \<open>The provider with restricted write access\<close>

text \<open>
  Claim C8. Every read of \<open>readonly\<close> is computed from the user name and the writers
  of that moment: it is true exactly when the name is not among the writers, so
  adding the name to the writers, or emptying them, changes the next read on the
  same provider object.
\<close>

theorem readonly_recomputed:
  "getattribute self username ''readonly'' = Some (PyBool (username \<notin> set (writers self)))
   \<and> getattribute (self\<lparr>writers := username # writers self\<rparr>) username ''readonly''
       = Some (PyBool False)
   \<and> getattribute (self\<lparr>writers := []\<rparr>) username ''readonly'' = Some (PyBool True)"
  by (simp add: getattribute_def)

subsection \<open>Strings and paths\<close>

lemma wild_match_star: "wild_match ''*'' s"
  by (induction s) simp_all

lemma py_split_nonempty: "py_split sep s \<noteq> []"
  by (subst py_split.simps) (simp split: list.splits)

lemma py_split_prefix:
  "sep \<noteq> [] \<Longrightarrow> py_split sep (sep @ rest) = [] # py_split sep rest"
  by (subst py_split.simps) simp

lemma rel_path_prefix:
  assumes "prefix (abs_root @ ''/'') fn"
  shows "\<exists>p. rel_path abs_root fn = Some p"
proof -
  from assms obtain rest where fn: "fn = (abs_root @ ''/'') @ rest" by (auto simp: prefix_def)
  obtain y ys where y: "py_split (abs_root @ ''/'') rest = y # ys"
    using py_split_nonempty [of "abs_root @ ''/''" rest] by (cases "py_split (abs_root @ ''/'') rest") auto
  have "py_split (abs_root @ ''/'') fn = [] # y # ys"
    unfolding fn using py_split_prefix [of "abs_root @ ''/''" rest] y by simp
  then show ?thesis by (simp add: rel_path_def)
qed

lemma basename_join:
  assumes "CHR ''/'' \<notin> set b"
  shows "basename (f @ CHR ''/'' # b) = b"
proof -
  have "x \<noteq> CHR ''/''" if "x \<in> set (rev b)" for x using that assms by auto
  then have "takeWhile (\<lambda>x. x \<noteq> CHR ''/'') (rev b @ CHR ''/'' # rev f)
               = rev b @ takeWhile (\<lambda>x. x \<noteq> CHR ''/'') (CHR ''/'' # rev f)"
    by (rule takeWhile_append2)
  then have "takeWhile (\<lambda>x. x \<noteq> CHR ''/'') (rev b @ CHR ''/'' # rev f) = rev b"
    by simp
  then show ?thesis by (simp add: basename_def)
qed

lemma rstrip_char_snoc:
  assumes "f \<noteq> []" and "last f \<noteq> c"
  shows "rstrip_char c (f @ [c]) = f"
proof -
  from assms have "dropWhile (\<lambda>x. x = c) (rev f) = rev f"
    by (cases f rule: rev_cases) auto
  then show ?thesis by (simp add: rstrip_char_def)
qed

lemma dirname_join:
  assumes b: "CHR ''/'' \<notin> set b" and f: "f \<noteq> []" and l: "last f \<noteq> CHR ''/''"
  shows "dirname (f @ CHR ''/'' # b) = f"
proof -
  have "x \<noteq> CHR ''/''" if "x \<in> set (rev b)" for x using that b by auto
  then have "dropWhile (\<lambda>x. x \<noteq> CHR ''/'') (rev b @ CHR ''/'' # rev f)
               = dropWhile (\<lambda>x. x \<noteq> CHR ''/'') (CHR ''/'' # rev f)"
    by (rule dropWhile_append2)
  then have d: "dropWhile (\<lambda>x. x \<noteq> CHR ''/'') (rev b @ CHR ''/'' # rev f) = CHR ''/'' # rev f"
    by simp
  have h: "rev (dropWhile (\<lambda>x. x \<noteq> CHR ''/'') (rev (f @ CHR ''/'' # b))) = f @ ''/''"
    using d by simp
  have "last f \<in> set f" using f by simp
  with l have n: "\<not> list_all (\<lambda>x. x = CHR ''/'') (f @ ''/'')"
    by (auto simp: list_all_iff)
  show ?thesis
    unfolding dirname_def Let_def h using n rstrip_char_snoc [OF f l] by simp
qed

lemma join_plain:
  assumes "f \<noteq> []" and "last f \<noteq> CHR ''/''" and "b \<noteq> []" and "CHR ''/'' \<notin> set b"
  shows "join f b = f @ CHR ''/'' # b"
  using assms by (cases b) (auto simp: join_def)

lemma split_char_noslash: "x \<in> set (split_char c s) \<Longrightarrow> c \<notin> set x"
proof (induction s arbitrary: x)
  case Nil
  then show ?case by simp
next
  case (Cons a s)
  show ?case
  proof (cases "a = c")
    case True
    with Cons show ?thesis by auto
  next
    case False
    show ?thesis
    proof (cases "split_char c s")
      case Nil
      with False Cons.prems show ?thesis by auto
    next
      case (Cons y ys)
      with False Cons.prems Cons.IH [of y] Cons.IH [of x] show ?thesis by auto
    qed
  qed
qed

lemma norm_step_members:
  "x \<in> set (norm_step r acc seg) \<Longrightarrow> x \<in> set acc \<or> (x = seg \<and> seg \<noteq> [])"
  by (auto simp: norm_step_def split: if_splits dest: in_set_butlastD)

lemma norm_fold_members:
  "x \<in> set (foldl (norm_step r) acc xs) \<Longrightarrow> x \<in> set acc \<or> (x \<in> set xs \<and> x \<noteq> [])"
proof (induction xs arbitrary: acc)
  case Nil
  then show ?case by simp
next
  case (Cons a xs)
  from Cons.prems have "x \<in> set (foldl (norm_step r) (norm_step r acc a) xs)" by simp
  from Cons.IH [OF this] show ?case using norm_step_members [of x r acc a] by auto
qed

lemma join_char_last:
  "xs \<noteq> [] \<Longrightarrow> \<forall>x\<in>set xs. x \<noteq> [] \<Longrightarrow>
   join_char c xs \<noteq> [] \<and> last (join_char c xs) = last (last xs)"
  by (induction c xs rule: join_char.induct) auto

lemma normpath_shape:
  "normpath q \<noteq> [] \<and> (list_all (\<lambda>c. c = CHR ''/'') (normpath q) \<or> last (normpath q) \<noteq> CHR ''/'')"
proof (cases "q = []")
  case True
  then show ?thesis by (simp add: normpath_def)
next
  case False
  define n :: nat where "n = (if prefix ''//'' q \<and> \<not> prefix ''///'' q then 2
               else if prefix ''/'' q then 1 else 0)"
  define comps where "comps = foldl (norm_step (0 < n)) [] (split_char CHR ''/'' q)"
  define p where "p = replicate n CHR ''/'' @ join_char CHR ''/'' comps"
  have np: "normpath q = (if p = [] then ''.'' else p)"
    using False by (simp add: normpath_def Let_def p_def comps_def n_def)
  have mem: "x \<noteq> [] \<and> CHR ''/'' \<notin> set x" if "x \<in> set comps" for x
    using norm_fold_members [of x "0 < n" "[]" "split_char CHR ''/'' q"] that
      split_char_noslash [of x "CHR ''/''" q] by (auto simp: comps_def)
  show ?thesis
  proof (cases "comps = []")
    case True
    then have "p = replicate n CHR ''/''" by (simp add: p_def)
    with np show ?thesis by (auto simp: list_all_iff)
  next
    case False
    with mem have j: "join_char CHR ''/'' comps \<noteq> []"
      and l: "last (join_char CHR ''/'' comps) = last (last comps)"
      using join_char_last [of comps "CHR ''/''"] by auto
    from False mem have "last comps \<noteq> []" and "CHR ''/'' \<notin> set (last comps)" by auto
    then have "last (last comps) \<noteq> CHR ''/''" by (metis last_in_set)
    with j l have "p \<noteq> []" and "last p \<noteq> CHR ''/''" by (auto simp: p_def)
    with np show ?thesis by simp
  qed
qed

lemma resolved_shape:
  assumes r: "path_to_filename cur abs_root p = Inr f"
    and a: "abs_root \<noteq> []" "last abs_root \<noteq> CHR ''/''"
  shows "f \<noteq> [] \<and> last f \<noteq> CHR ''/''"
proof -
  from r obtain q where f: "f = normpath q" and pre: "prefix abs_root f"
    by (auto simp: path_to_filename_def abspath_def Let_def split: if_splits)
  from a have "last abs_root \<in> set abs_root" by simp
  with pre have "last abs_root \<in> set f" by (auto simp: prefix_def)
  with a have "\<not> list_all (\<lambda>c. c = CHR ''/'') f" by (auto simp: list_all_iff)
  with normpath_shape [of q] f show ?thesis by simp
qed

subsection \<open>Creating directories\<close>



subsection \<open>Listing a collection\<close>

lemma join_empty: "f \<noteq> [] \<Longrightarrow> last f \<noteq> CHR ''/'' \<Longrightarrow> join f [] = f @ ''/''"
  by (simp add: join_def)

lemma has_magic_star: "has_magic (f @ ''/*'')"
  by (simp add: has_magic_def)

lemma glob_star:
  assumes f: "f \<noteq> []" and l: "last f \<noteq> CHR ''/''" and m: "\<not> has_magic f"
  shows "glob E fs (join f ''*'') = map (join f) (filter (\<lambda>n. \<not> ishidden n) (listdir fs f))"
proof -
  have j: "join f ''*'' = f @ ''/*''" using join_plain [OF f l, of "''*''"] by simp
  have d: "dirname (f @ ''/*'') = f" using dirname_join [OF _ f l, of "''*''"] by simp
  have b: "basename (f @ ''/*'') = ''*''" using basename_join [of "''*''" f] by simp
  have ms: "has_magic ''*''" by (simp add: has_magic_def)
  have g1: "glob1 E fs f ''*'' = filter (\<lambda>n. \<not> ishidden n) (listdir fs f)"
    by (simp add: glob1_def ishidden_def fnmatch_def wild_match_star del: wild_match.simps)
  show ?thesis
    unfolding j
    by (subst glob.simps) (simp add: Let_def d b has_magic_star ms m f g1)
qed

lemma listdir_member:
  assumes f: "f \<noteq> []" and l: "last f \<noteq> CHR ''/''" and n: "n \<in> set (listdir fs f)"
  shows "n \<noteq> [] \<and> CHR ''/'' \<notin> set n \<and> map_of fs (f @ CHR ''/'' # n) \<noteq> None"
proof -
  from n obtain k where k: "k \<in> fst ` set fs" and bl: "below f k"
    and nk: "n = drop (length (join f [])) k" and ns: "CHR ''/'' \<notin> set n"
    by (auto simp: listdir_def split: if_splits)
  from bl have p: "prefix (f @ ''/'') k" and ne: "k \<noteq> f @ ''/''"
    by (simp_all add: below_def join_empty [OF f l])
  from p obtain rest where kr: "k = (f @ ''/'') @ rest" by (auto simp: prefix_def)
  with nk have "n = rest" by (simp add: join_empty [OF f l])
  with kr ne have "n \<noteq> []" and "k = f @ CHR ''/'' # n" by auto
  moreover from k have "map_of fs k \<noteq> None" by (simp add: map_of_eq_None_iff)
  ultimately show ?thesis using ns by simp
qed

lemma collect_map_Inr:
  "\<forall>x\<in>set xs. g x = Inr (h x) \<Longrightarrow> collect (map g xs) = Inr (map h xs)"
  by (induction xs) auto

lemma child_asset_visible:
  assumes f: "f \<noteq> []" and l: "last f \<noteq> CHR ''/''"
    and i: "f = abs_root \<or> prefix (abs_root @ ''/'') f"
    and n: "n \<in> set (listdir fs f)"
  shows "\<exists>p nd. map_of fs (join f n) = Some nd
          \<and> child_asset E fs abs_root (join f n)
              = Inr \<lparr>name = n, collection = isdir fs (join f n), path = p,
                     metadata = [(''time'', PyStr (isoformat (fromtimestamp E (mtime_of nd))))]\<rparr>"
proof -
  from listdir_member [OF f l n] obtain nd where n0: "n \<noteq> []" and ns: "CHR ''/'' \<notin> set n"
    and nd: "map_of fs (f @ CHR ''/'' # n) = Some nd" by auto
  have j: "join f n = f @ CHR ''/'' # n" by (rule join_plain [OF f l n0 ns])
  from i have "prefix (abs_root @ ''/'') (f @ CHR ''/'' # n)"
  proof
    assume "f = abs_root"
    then show ?thesis by simp
  next
    assume "prefix (abs_root @ ''/'') f"
    then show ?thesis by (metis prefix_prefix)
  qed
  from rel_path_prefix [OF this] obtain p where p: "rel_path abs_root (f @ CHR ''/'' # n) = Some p" ..
  show ?thesis
    unfolding j using nd p basename_join [OF ns, of f] by (simp add: child_asset_def)
qed

text \<open>
  Claim C10, as the code has it. For a collection that resolves inside a root other
  than \<open>/\<close> and whose name has no magic character of \<open>glob\<close>, the listing has one
  asset for each entry of the directory whose name does not start with a dot, in the
  order of the directory; each carries its collection flag and a metadata map whose
  only key is \<open>time\<close>, the entry's modification time. No file is classified: the
  definition of the listing never reads a file's bytes.
\<close>

theorem get_child_assets_visible:
  assumes r: "path_to_filename (cur_dir E) abs_root apath = Inr filename"
    and d: "isdir fs filename"
    and a: "abs_root \<noteq> [] \<and> last abs_root \<noteq> CHR ''/''"
    and i: "filename = abs_root \<or> prefix (abs_root @ ''/'') filename"
    and m: "\<not> has_magic filename"
  shows "\<exists>assets. get_child_assets E fs abs_root apath = Inr assets
          \<and> map name assets = filter (\<lambda>n. \<not> ishidden n) (listdir fs filename)
          \<and> (\<forall>c\<in>set assets. \<exists>nd. map_of fs (join filename (name c)) = Some nd
                \<and> collection c = isdir fs (join filename (name c))
                \<and> metadata c = [(''time'', PyStr (isoformat (fromtimestamp E (mtime_of nd))))])"
proof -
  from resolved_shape [OF r] a have f: "filename \<noteq> []" and l: "last filename \<noteq> CHR ''/''"
    by auto
  let ?names = "filter (\<lambda>n. \<not> ishidden n) (listdir fs filename)"
  define h where "h n = (case child_asset E fs abs_root (join filename n) of
                           Inr c \<Rightarrow> c | Inl _ \<Rightarrow> undefined)" for n
  have hn: "child_asset E fs abs_root (join filename n) = Inr (h n)
            \<and> name (h n) = n \<and> collection (h n) = isdir fs (join filename n)
            \<and> (\<exists>nd. map_of fs (join filename n) = Some nd
                 \<and> metadata (h n) = [(''time'', PyStr (isoformat (fromtimestamp E (mtime_of nd))))])"
    if "n \<in> set ?names" for n
  proof -
    from that have "n \<in> set (listdir fs filename)" by simp
    from child_asset_visible [OF f l i this, of E] obtain p nd where
      nd: "map_of fs (join filename n) = Some nd"
      and c: "child_asset E fs abs_root (join filename n)
              = Inr \<lparr>name = n, collection = isdir fs (join filename n), path = p,
                     metadata = [(''time'', PyStr (isoformat (fromtimestamp E (mtime_of nd))))]\<rparr>"
      by blast
    from c have "h n = \<lparr>name = n, collection = isdir fs (join filename n), path = p,
                     metadata = [(''time'', PyStr (isoformat (fromtimestamp E (mtime_of nd))))]\<rparr>"
      by (simp add: h_def)
    with c nd show ?thesis by simp
  qed
  have g: "get_child_assets E fs abs_root apath
           = collect (map (child_asset E fs abs_root) (map (join filename) ?names))"
    using r d glob_star [OF f l m, of E fs] by (simp add: get_child_assets_def)
  have "collect (map (\<lambda>n. child_asset E fs abs_root (join filename n)) ?names) = Inr (map h ?names)"
    by (rule collect_map_Inr) (use hn in blast)
  with g have res: "get_child_assets E fs abs_root apath = Inr (map h ?names)"
    by (simp add: comp_def)
  have "map (\<lambda>n. name (h n)) ?names = ?names"
    by (rule map_idI) (use hn in blast)
  then have nm: "map name (map h ?names) = ?names"
    by (simp add: comp_def)
  have props: "\<forall>c\<in>set (map h ?names). \<exists>nd. map_of fs (join filename (name c)) = Some nd
                \<and> collection c = isdir fs (join filename (name c))
                \<and> metadata c = [(''time'', PyStr (isoformat (fromtimestamp E (mtime_of nd))))]"
    using hn by auto
  from res nm props show ?thesis by blast
qed

theorem get_child_assets_visible_witness:
  "path_to_filename (cur_dir sample_env) ''/data'' [] = Inr ''/data''
   \<and> isdir sample_store ''/data''
   \<and> get_asset sample_env sample_store ''/data'' ''notes.txt'' = Inl UnrecognizedDataFormatError
   \<and> (\<exists>assets. get_child_assets sample_env sample_store ''/data'' [] = Inr assets
         \<and> map name assets = [''a.fits'', ''b.fits'', ''c.png'', ''notes.txt'', ''sub'']
         \<and> list_all (\<lambda>c. map fst (metadata c) = [''time'']) assets)"
proof -
  have r: "path_to_filename (cur_dir sample_env) ''/data'' [] = Inr ''/data''" by code_simp
  have d: "isdir sample_store ''/data''" by code_simp
  have a: "''/data'' \<noteq> [] \<and> last ''/data'' \<noteq> CHR ''/''" by simp
  have i: "''/data'' = ''/data'' \<or> prefix (''/data'' @ ''/'') ''/data''" by simp
  have m: "\<not> has_magic ''/data''" by code_simp
  have u: "get_asset sample_env sample_store ''/data'' ''notes.txt''
             = Inl UnrecognizedDataFormatError" by code_simp
  have v: "filter (\<lambda>n. \<not> ishidden n) (listdir sample_store ''/data'')
             = [''a.fits'', ''b.fits'', ''c.png'', ''notes.txt'', ''sub'']" by code_simp
  from get_child_assets_visible [OF r d a i m] obtain assets where
    g: "get_child_assets sample_env sample_store ''/data'' [] = Inr assets"
    and n: "map name assets = filter (\<lambda>n. \<not> ishidden n) (listdir sample_store ''/data'')"
    and p: "\<forall>c\<in>set assets. \<exists>nd. map_of sample_store (join ''/data'' (name c)) = Some nd
              \<and> collection c = isdir sample_store (join ''/data'' (name c))
              \<and> metadata c = [(''time'', PyStr (isoformat (fromtimestamp sample_env (mtime_of nd))))]"
    by blast
  from p have "list_all (\<lambda>c. map fst (metadata c) = [''time'']) assets"
    unfolding list_all_iff by auto
  with g n v r d u show ?thesis by auto
qed

text \<open>
  Claim C10 as stated fails for a hidden child: \<open>glob\<close> with the pattern \<open>*\<close> skips the
  names that start with a dot, so the file \<open>.hidden\<close> of the sample store is a direct
  child of \<open>/data\<close> that the listing leaves out.
\<close>

theorem hidden_child_not_listed:
  "map_of sample_store ''/data/.hidden'' = Some (File ''SIMPLE'' 6)
   \<and> dirname ''/data/.hidden'' = ''/data''
   \<and> map_sum id (map name) (get_child_assets sample_env sample_store ''/data'' [])
       = Inr [''a.fits'', ''b.fits'', ''c.png'', ''notes.txt'', ''sub'']"
  by code_simp

subsection \<open>Searching\<close>















subsection \<open>Creating an asset\<close>



























end
